theory Spec2Isabelle
  imports Complex_Main "HOL-Library.Word" "HOL-Library.AList"
begin

unbundle bit_operations_syntax

section \<open>Values shared by the store and the evaluator\<close>

text \<open>
  A parsed JSON value, as \<^verbatim>\<open>JSON.parse\<close> produces it. An object keeps its entries in
  the order of \<^verbatim>\<open>Object.keys\<close>. A JavaScript number is the real number it stands
  for: every comparison the model makes on numbers is exact on IEEE doubles as well, and
  the one product it takes, in \<^verbatim>\<open>_evalPassPercent\<close>, is rounded as a double is.
\<close>

datatype json =
    JNull
  | JBool bool
  | JNum real
  | JStr string
  | JArr "json list"
  | JObj "(string \<times> json) list"

text \<open>
  A field read from an object of type \<^verbatim>\<open>Record<string, unknown>\<close> is \<open>None\<close> when the
  property is \<^verbatim>\<open>undefined\<close>. \<open>truthy\<close> is JavaScript's \<^verbatim>\<open>!!v\<close> on such a field.
\<close>

fun truthy :: "json option \<Rightarrow> bool" where
  "truthy None = False"
| "truthy (Some JNull) = False"
| "truthy (Some (JBool b)) = b"
| "truthy (Some (JNum n)) = (n \<noteq> 0)"
| "truthy (Some (JStr s)) = (s \<noteq> [])"
| "truthy (Some (JArr xs)) = True"
| "truthy (Some (JObj kvs)) = True"

subsection \<open>JavaScript numbers\<close>

text \<open>
  A JavaScript number is an IEEE 754 double. \<open>to_double r\<close> is the double nearest to
  the real number \<open>r\<close>, ties to the even mantissa: the double a numeric literal of the
  payload parses to, and the result of an arithmetic operation whose exact result is
  \<open>r\<close>. \<open>binade r\<close> is the exponent \<open>e\<close> with \<open>2 ^ e \<le> |r| < 2 ^ (e + 1)\<close>; a double
  in that range is a multiple of \<open>2 ^ (e - 52)\<close>, and of \<open>2 ^ (-1074)\<close> below the normal
  range. A product beyond the largest double is \<^verbatim>\<open>Infinity\<close> or \<^verbatim>\<open>-Infinity\<close> in the
  code and a real number of the same sign beyond every integer that is compared with
  it here.
\<close>

definition pow2 :: "int \<Rightarrow> real" where
  "pow2 k = (if 0 \<le> k then 2 ^ nat k else inverse (2 ^ nat (- k)))"

definition binade :: "real \<Rightarrow> int" where
  "binade r = \<lfloor>log 2 \<bar>r\<bar>\<rfloor>"

definition round_half_even :: "real \<Rightarrow> int" where
  "round_half_even x =
     (let f = \<lfloor>x\<rfloor>; d = x - of_int f
      in if d < 1 / 2 then f else if 1 / 2 < d then f + 1 else if even f then f else f + 1)"

definition to_double :: "real \<Rightarrow> real" where
  "to_double r =
     (if r = 0 then 0
      else let q = pow2 (max (binade r) (- 1022) - 52)
           in of_int (round_half_even (r / q)) * q)"

text \<open>\<^verbatim>\<open>a * b\<close> on two numbers.\<close>

definition js_times :: "real \<Rightarrow> real \<Rightarrow> real" where
  "js_times a b = to_double (to_double a * to_double b)"

section \<open>Hashing (Evaluator.ts, \<^verbatim>\<open>computeUserHash\<close>)\<close>

text \<open>
  \<^verbatim>\<open>sha256Hash\<close> (utils/Hashing) is a parameter: it returns the bytes of the
  \<^verbatim>\<open>DataView\<close> over the 32-byte digest. \<^verbatim>\<open>getBigUint64(0, false)\<close> reads the first
  eight bytes, most significant byte first.
\<close>

type_synonym sha256Hash_fn = "string \<Rightarrow> 8 word list"

definition getBigUint64 :: "8 word list \<Rightarrow> 64 word" where
  "getBigUint64 bytes = foldl (\<lambda>acc b. push_bit 8 acc OR ucast b) 0 (take 8 bytes)"


definition sha256_u64 :: "sha256Hash_fn \<Rightarrow> string \<Rightarrow> 64 word" where
  "sha256_u64 sha s = getBigUint64 (sha s)"

text \<open>
  \<^verbatim>\<open>hashLookupTable\<close> is a \<^verbatim>\<open>Map<string, bigint>\<close>: an association list with one
  entry per key, in insertion order; \<^verbatim>\<open>set\<close> on a present key replaces its value in
  place, and \<^verbatim>\<open>size\<close> is the number of entries.

  \<^verbatim>\<open>
  export function computeUserHash(userHash: string) {
    const existingHash = hashLookupTable.get(userHash);
    if (existingHash) { return existingHash; }
    const hash = sha256Hash(userHash).getBigUint64(0, false);
    if (hashLookupTable.size > 100000) { hashLookupTable.clear(); }
    hashLookupTable.set(userHash, hash);
    return hash;
  }
  \<close>
  A cached \<^verbatim>\<open>0n\<close> is falsy, so it is computed again.
\<close>

type_synonym hashLookupTable = "(string \<times> 64 word) list"

definition table_size :: "hashLookupTable \<Rightarrow> nat" where
  "table_size tbl = length tbl"

definition computeUserHash ::
  "sha256Hash_fn \<Rightarrow> hashLookupTable \<Rightarrow> string \<Rightarrow> 64 word \<times> hashLookupTable" where
  "computeUserHash sha tbl userHash =
     (let existingHash = map_of tbl userHash in
      if existingHash \<noteq> None \<and> existingHash \<noteq> Some 0 then (the existingHash, tbl)
      else
        let hash = getBigUint64 (sha userHash);
            tbl1 = (if table_size tbl > 100000 then [] else tbl)
        in (hash, AList.update userHash hash tbl1))"

text \<open>A sequence of calls, each on the table the previous one left.\<close>

fun computeUserHash_calls ::
  "sha256Hash_fn \<Rightarrow> hashLookupTable \<Rightarrow> string list \<Rightarrow> hashLookupTable" where
  "computeUserHash_calls sha tbl [] = tbl"
| "computeUserHash_calls sha tbl (k # ks) =
     computeUserHash_calls sha (snd (computeUserHash sha tbl k)) ks"


text \<open>The keys \<open>""\<close>, \<open>"a"\<close>, \<open>"aa"\<close>, ...: \<open>n\<close> different strings.\<close>

definition distinct_keys :: "nat \<Rightarrow> string list" where
  "distinct_keys n = map (\<lambda>i. replicate i CHR ''a'') [0..<n]"


section \<open>The spec model\<close>

text \<open>
  Modelled from the spec: \<^verbatim>\<open>ConfigSpec.ts\<close> (the classes \<^verbatim>\<open>ConfigSpec\<close>,
  \<^verbatim>\<open>ConfigRule\<close> and \<^verbatim>\<open>ConfigCondition\<close>) is not among the sources; the fields are
  those of the spec's data model and those the evaluator reads. A field the evaluator
  tests against \<^verbatim>\<open>null\<close> or \<^verbatim>\<open>undefined\<close> is an \<open>option\<close>.
\<close>

record ConfigCondition =
  c_type :: string
  targetValue :: json
  operator :: "string option"
  field :: "string option"
  c_idType :: "string option"
  additionalValues :: "(string \<times> json) list"

record ConfigRule =
  r_id :: string
  r_salt :: "string option"
  passPercentage :: real
  returnValue :: json
  r_idType :: "string option"
  groupName :: "string option"
  isExperimentGroup :: "bool option"
  configDelegate :: "string option"
  conditions :: "ConfigCondition list"

record ConfigSpec =
  s_name :: string
  entity :: string
  enabled :: bool
  s_salt :: string
  defaultValue :: json
  s_idType :: "string option"
  rules :: "ConfigRule list"
  explicitParameters :: "string list option"
  hasSharedParams :: bool
  isActive :: "bool option"
  version :: "int option"

text \<open>
  The constructor \<^verbatim>\<open>new ConfigSpec(json)\<close> is a parameter; \<open>None\<close> is a constructor
  that throws.
\<close>

type_synonym newConfigSpec_fn = "json \<Rightarrow> ConfigSpec option"

section \<open>SpecStore\<close>

text \<open>
  Modelled from the spec: \<^verbatim>\<open>IDList\<close> (utils/IDListUtil) and \<^verbatim>\<open>EvaluationReason\<close> are
  not among the sources. A JavaScript number that can be \<^verbatim>\<open>NaN\<close> is a \<open>real option\<close>,
  with \<open>None\<close> for \<^verbatim>\<open>NaN\<close>.
\<close>

type_synonym number = "real option"

definition plus_number :: "number \<Rightarrow> number \<Rightarrow> number" where
  "plus_number a b = (case (a, b) of (Some m, Some n) \<Rightarrow> Some (m + n) | _ \<Rightarrow> None)"

record IDList =
  ids :: "string list"
  readBytes :: number
  url :: string
  fileID :: string
  creationTime :: real

datatype EvaluationReason =
  Uninitialized | Bootstrap | Network | DataAdapter | LocalOverride | Unrecognized
  | Unsupported

record ConfigStore =
  gates :: "(string \<times> ConfigSpec) list"
  configs :: "(string \<times> ConfigSpec) list"
  idLists :: "(string \<times> IDList) list"
  layers :: "(string \<times> ConfigSpec) list"
  experimentToLayer :: "(string \<times> string) list"

record DiagnosticsSamplingRate =
  rate_dcs :: real
  rate_log :: real
  rate_idlist :: real
  rate_initialize :: real

record SpecStore =
  initReason :: EvaluationReason
  initialUpdateTime :: real
  lastUpdateTime :: real
  store :: ConfigStore
  samplingRates :: DiagnosticsSamplingRate

text \<open>Modelled from the spec: the constant \<^verbatim>\<open>MAX_SAMPLING_RATE\<close> of Diagnostics.\<close>

definition MAX_SAMPLING_RATE :: real where
  "MAX_SAMPLING_RATE = 10000"

text \<open>The store the constructor builds.\<close>

definition SpecStore_new :: SpecStore where
  "SpecStore_new =
     \<lparr>initReason = Uninitialized, initialUpdateTime = 0, lastUpdateTime = 0,
      store = \<lparr>gates = [], configs = [], idLists = [], layers = [], experimentToLayer = []\<rparr>,
      samplingRates =
        \<lparr>rate_dcs = 0, rate_log = 0, rate_idlist = 0, rate_initialize = MAX_SAMPLING_RATE\<rparr>\<rparr>"

text \<open>
  \<^verbatim>\<open>getGate\<close>, \<^verbatim>\<open>getConfig\<close>, \<^verbatim>\<open>getLayer\<close> and \<^verbatim>\<open>getExperimentLayer\<close> read a plain
  object by name and return \<^verbatim>\<open>null\<close> for \<^verbatim>\<open>undefined\<close>. The model reads the entries the
  store put there; a name that is a member of \<^verbatim>\<open>Object.prototype\<close> (\<^verbatim>\<open>constructor\<close>,
  \<^verbatim>\<open>toString\<close>, ...) and has no entry reads as that member in the code and as \<open>None\<close>
  here.
\<close>

definition getGate :: "SpecStore \<Rightarrow> string \<Rightarrow> ConfigSpec option" where
  "getGate st gateName = map_of (gates (store st)) gateName"

definition getConfig :: "SpecStore \<Rightarrow> string \<Rightarrow> ConfigSpec option" where
  "getConfig st configName = map_of (configs (store st)) configName"

definition getLayer :: "SpecStore \<Rightarrow> string \<Rightarrow> ConfigSpec option" where
  "getLayer st layerName = map_of (layers (store st)) layerName"

definition getExperimentLayer :: "SpecStore \<Rightarrow> string \<Rightarrow> string option" where
  "getExperimentLayer st experimentName = map_of (experimentToLayer (store st)) experimentName"

definition isServingChecks :: "SpecStore \<Rightarrow> bool" where
  "isServingChecks st \<longleftrightarrow> lastUpdateTime st \<noteq> 0"

subsection \<open>The payload of a spec update\<close>

text \<open>
  The parsed payload, \<^verbatim>\<open>specsJSON: Record<string, unknown>\<close>, with each field as
  \<^verbatim>\<open>_process\<close> reads it. The fields it tests at run time (\<^verbatim>\<open>has_updates\<close>, the three
  arrays, \<^verbatim>\<open>diagnostics\<close>) are JSON values, \<open>None\<close> when absent. Where the code casts
  instead (\<^verbatim>\<open>specsJSON.time as number\<close>; the \<^verbatim>\<open>layers\<close> object of experiment-name
  arrays, iterated under \<^verbatim>\<open>@ts-ignore\<close>), the field has the type of the cast:
  \<^verbatim>\<open>time\<close> is \<^verbatim>\<open>undefined\<close>, \<^verbatim>\<open>null\<close> or a number, and \<^verbatim>\<open>layers\<close> is an object from
  layer names to arrays of experiment names, or \<open>None\<close> for anything that is
  \<^verbatim>\<open>null\<close> or not an object. A payload that is itself \<^verbatim>\<open>null\<close> reads as the record of
  absent fields.

  The cast checks nothing at run time. A \<^verbatim>\<open>time\<close> of another type (a string, a boolean,
  an array, an object) is compared as \<^verbatim>\<open>Number(time)\<close> and then stored as it is, so
  that \<^verbatim>\<open>lastUpdateTime\<close> stops being a number; and a \<^verbatim>\<open>layers\<close> value whose entries
  are not arrays makes \<^verbatim>\<open>_reverseLayerExperimentMapping\<close> throw. Such payloads are
  outside this model: what is proved of \<open>process\<close> below is proved for payloads whose
  \<^verbatim>\<open>time\<close> and \<^verbatim>\<open>layers\<close> have the types of the casts.
\<close>

datatype time_field = TimeUndefined | TimeNull | Time real

record SpecsJSON =
  has_updates :: "json option"
  time :: time_field
  feature_gates :: "json option"
  dynamic_configs :: "json option"
  layer_configs :: "json option"
  layers_field :: "(string \<times> string list) list option"
  diagnostics :: "json option"

text \<open>\<^verbatim>\<open>Array.isArray\<close>, and the elements when it holds.\<close>

fun isArray :: "json option \<Rightarrow> bool" where
  "isArray (Some (JArr xs)) = True"
| "isArray _ = False"

fun elements :: "json option \<Rightarrow> json list" where
  "elements (Some (JArr xs)) = xs"
| "elements _ = []"

text \<open>
  \<^verbatim>\<open>
  private safeSet(samplingRates, key, value: unknown) {
    if (typeof value !== 'number') { return; }
    if (value < 0) { samplingRates[key] = 0; }
    else if (value > MAX_SAMPLING_RATE) { samplingRates[key] = MAX_SAMPLING_RATE; }
    else { samplingRates[key] = value; }
  }
  \<close>
  The model returns the value the key holds afterwards.
\<close>

definition safeSet :: "real \<Rightarrow> json option \<Rightarrow> real" where
  "safeSet current v =
     (case v of
        Some (JNum n) \<Rightarrow>
          if n < 0 then 0 else if n > MAX_SAMPLING_RATE then MAX_SAMPLING_RATE else n
      | _ \<Rightarrow> current)"

text \<open>\<^verbatim>\<open>obj[key]\<close> on a JSON value that passed \<^verbatim>\<open>typeof obj === 'object'\<close>.\<close>

fun property :: "json \<Rightarrow> string \<Rightarrow> json option" where
  "property (JObj kvs) k = map_of kvs k"
| "property _ k = None"

definition updateSamplingRates ::
  "DiagnosticsSamplingRate \<Rightarrow> json option \<Rightarrow> DiagnosticsSamplingRate" where
  "updateSamplingRates rates obj =
     (if \<not> truthy obj \<or> \<not> (case obj of Some (JObj _) \<Rightarrow> True | Some (JArr _) \<Rightarrow> True | _ \<Rightarrow> False)
      then rates
      else
        \<lparr>rate_dcs = safeSet (rate_dcs rates) (property (the obj) ''dcs''),
         rate_log = safeSet (rate_log rates) (property (the obj) ''log''),
         rate_idlist = safeSet (rate_idlist rates) (property (the obj) ''idlist''),
         rate_initialize = safeSet (rate_initialize rates) (property (the obj) ''initialize'')\<rparr>)"

text \<open>
  One of the three loops of \<^verbatim>\<open>_process\<close>: every element is constructed and stored
  under its name; the first constructor that throws ends the update (\<open>None\<close>). The
  entries are kept in the order in which their names were first stored; a JavaScript
  object lists the names that are array indices first. Nothing below depends on the
  order.
\<close>

fun buildSpecs ::
  "newConfigSpec_fn \<Rightarrow> json list \<Rightarrow> (string \<times> ConfigSpec) list \<Rightarrow>
   (string \<times> ConfigSpec) list option" where
  "buildSpecs mk [] updated = Some updated"
| "buildSpecs mk (j # js) updated =
     (case mk j of
        None \<Rightarrow> None
      | Some spec \<Rightarrow> buildSpecs mk js (AList.update (s_name spec) spec updated))"

text \<open>
  \<^verbatim>\<open>_reverseLayerExperimentMapping\<close>: every experiment of every layer is mapped to
  the layer, a later layer overwriting an earlier one.
\<close>

definition reverseLayerExperimentMapping ::
  "(string \<times> string list) list option \<Rightarrow> (string \<times> string) list" where
  "reverseLayerExperimentMapping layersMapping =
     (case layersMapping of
        None \<Rightarrow> []
      | Some entries \<Rightarrow>
          foldl (\<lambda>reverseMapping (layerName, experiments).
                   foldl (\<lambda>m experimentName. AList.update experimentName layerName m)
                     reverseMapping experiments)
            [] entries)"

text \<open>\<^verbatim>\<open>Number(specsJSON.time) < this.lastUpdateTime\<close>, with \<^verbatim>\<open>Number(null) = 0\<close>.\<close>

fun older :: "time_field \<Rightarrow> real \<Rightarrow> bool" where
  "older TimeUndefined lastUpdate = False"
| "older TimeNull lastUpdate = (0 < lastUpdate)"
| "older (Time t) lastUpdate = (t < lastUpdate)"

text \<open>\<^verbatim>\<open>(specsJSON.time as number) ?? this.lastUpdateTime\<close>.\<close>

fun time_or :: "time_field \<Rightarrow> real \<Rightarrow> real" where
  "time_or (Time t) lastUpdate = t"
| "time_or _ lastUpdate = lastUpdate"

text \<open>
  \<^verbatim>\<open>_process\<close> returns whether the payload was stored, and the store it leaves. The
  sampling rates are updated before the shape of the arrays is checked.
\<close>

definition process :: "newConfigSpec_fn \<Rightarrow> SpecStore \<Rightarrow> SpecsJSON \<Rightarrow> bool \<times> SpecStore" where
  "process mk st specsJSON =
     (if \<not> truthy (has_updates specsJSON) then (False, st)
      else if time specsJSON \<noteq> TimeUndefined \<and> older (time specsJSON) (lastUpdateTime st)
      then (False, st)
      else
        let gateArray = feature_gates specsJSON;
            configArray = dynamic_configs specsJSON;
            layersArray = layer_configs specsJSON;
            st1 = st\<lparr>samplingRates := updateSamplingRates (samplingRates st) (diagnostics specsJSON)\<rparr>
        in
        if \<not> isArray gateArray \<or> \<not> isArray configArray \<or> \<not> isArray layersArray
        then (False, st1)
        else
          case buildSpecs mk (elements gateArray) [] of
            None \<Rightarrow> (False, st1)
          | Some updatedGates \<Rightarrow>
              (case buildSpecs mk (elements configArray) [] of
                 None \<Rightarrow> (False, st1)
               | Some updatedConfigs \<Rightarrow>
                   (case buildSpecs mk (elements layersArray) [] of
                      None \<Rightarrow> (False, st1)
                    | Some updatedLayers \<Rightarrow>
                        let updatedExpToLayer =
                              reverseLayerExperimentMapping (layers_field specsJSON)
                        in (True,
                            st1\<lparr>store := (store st1)
                                  \<lparr>gates := updatedGates, configs := updatedConfigs,
                                   layers := updatedLayers,
                                   experimentToLayer := updatedExpToLayer\<rparr>,
                                lastUpdateTime :=
                                  time_or (time specsJSON) (lastUpdateTime st1)\<rparr>))))"

text \<open>
  The four causes for which \<^verbatim>\<open>_process\<close> rejects a payload: \<^verbatim>\<open>has_updates\<close> is falsy,
  the payload is older than the store, one of the three fields is not an array, or the
  constructor throws on an element of one of the arrays.
\<close>

definition rejected :: "newConfigSpec_fn \<Rightarrow> SpecStore \<Rightarrow> SpecsJSON \<Rightarrow> bool" where
  "rejected mk st specsJSON \<longleftrightarrow>
     \<not> truthy (has_updates specsJSON)
     \<or> older (time specsJSON) (lastUpdateTime st)
     \<or> \<not> isArray (feature_gates specsJSON)
     \<or> \<not> isArray (dynamic_configs specsJSON)
     \<or> \<not> isArray (layer_configs specsJSON)
     \<or> list_ex (\<lambda>j. mk j = None)
          (elements (feature_gates specsJSON) @ elements (dynamic_configs specsJSON)
           @ elements (layer_configs specsJSON))"

text \<open>A sequence of calls of \<^verbatim>\<open>_process\<close>, each on the store the previous one left.\<close>

fun process_calls :: "newConfigSpec_fn \<Rightarrow> SpecStore \<Rightarrow> SpecsJSON list \<Rightarrow> SpecStore" where
  "process_calls mk st [] = st"
| "process_calls mk st (p # ps) = process_calls mk (snd (process mk st p)) ps"

text \<open>
  \<^verbatim>\<open>
  public syncBootstrapValues(bootstrapValues: string): boolean {
    const specsJSON = JSON.parse(bootstrapValues);
    return this._process(specsJSON);
  }
  \<close>
  \<^verbatim>\<open>JSON.parse\<close> is a parameter, \<open>None\<close> where it throws on a string that is not JSON;
  the result \<open>None\<close> is that exception, which leaves the store as it was.
\<close>

type_synonym JSON_parse_fn = "string \<Rightarrow> SpecsJSON option"

definition syncBootstrapValues ::
  "JSON_parse_fn \<Rightarrow> newConfigSpec_fn \<Rightarrow> SpecStore \<Rightarrow> string \<Rightarrow> bool option \<times> SpecStore" where
  "syncBootstrapValues parse mk st bootstrapValues =
     (case parse bootstrapValues of
        None \<Rightarrow> (None, st)
      | Some specsJSON \<Rightarrow> (let (r, st') = process mk st specsJSON in (Some r, st')))"

subsection \<open>Fetching one ID list (\<^verbatim>\<open>genFetchIDList\<close>)\<close>

text \<open>
  What \<^verbatim>\<open>await safeFetch(url, ...)\<close> gives: a rejected promise, or a response with
  its status, its \<^verbatim>\<open>Content-Length\<close> header (\<open>None\<close> when
  \<^verbatim>\<open>res.headers.get('content-length')\<close> is \<^verbatim>\<open>null\<close>) and its body (\<open>None\<close> when
  \<^verbatim>\<open>await res.text()\<close> rejects).
\<close>

datatype js_error = Error string | TypeError | FetchError | BodyError | UpdateError

datatype fetch_result =
    Rejected
  | Response (status: real) (content_length: "string option") (body: "string option")

text \<open>
  \<^verbatim>\<open>parseInt\<close> is a parameter, \<open>None\<close> where it returns \<^verbatim>\<open>NaN\<close>.
  \<^verbatim>\<open>IDListUtil.updateIdList\<close> is not among the sources: it is a parameter, from the
  lists, the name and the fetched text to the lists it leaves and to whether it threw.
\<close>

type_synonym parseInt_fn = "string \<Rightarrow> number"
type_synonym updateIdList_fn =
  "(string \<times> IDList) list \<Rightarrow> string \<Rightarrow> string \<Rightarrow> (string \<times> IDList) list \<times> bool"

text \<open>
  \<^verbatim>\<open>
  const contentLength = res.headers.get('content-length');
  if (contentLength == null) {
    throw new Error('Content-Length for the id list is invalid.');
  }
  const length = parseInt(contentLength);
  if (typeof length === 'number') {
    this.store.idLists[name].readBytes += length;
  } else {
    delete this.store.idLists[name];
    throw new Error('Content-Length for the id list is invalid.');
  }
  IDListUtil.updateIdList(this.store.idLists, name, await res.text());
  \<close>
  \<^verbatim>\<open>typeof length\<close> is \<^verbatim>\<open>'number'\<close> for every result of \<^verbatim>\<open>parseInt\<close>, \<^verbatim>\<open>NaN\<close> included,
  so the \<^verbatim>\<open>else\<close> branch, the only one that deletes the list, is never taken. Reading
  \<^verbatim>\<open>readBytes\<close> of a list that is not in the store throws a \<^verbatim>\<open>TypeError\<close>. Every
  exception, those of \<^verbatim>\<open>res.text()\<close> and of \<^verbatim>\<open>updateIdList\<close> included, is caught by the
  enclosing \<^verbatim>\<open>try\<close> and passed to \<^verbatim>\<open>outputLogger.warn\<close>: the second component of
  the result is the error that was reported, if any. The lists are read by their own
  names only (a name that \<^verbatim>\<open>Object.prototype\<close> also has is outside this model).
\<close>

definition genFetchIDList ::
  "parseInt_fn \<Rightarrow> updateIdList_fn \<Rightarrow> (string \<times> IDList) list \<Rightarrow> string \<Rightarrow> fetch_result \<Rightarrow>
   (string \<times> IDList) list \<times> js_error option" where
  "genFetchIDList parseInt updateIdList allLists name res =
     (case res of
        Rejected \<Rightarrow> (allLists, Some FetchError)
      | Response st contentLength content \<Rightarrow>
          (case contentLength of
             None \<Rightarrow> (allLists, Some (Error ''Content-Length for the id list is invalid.''))
           | Some cl \<Rightarrow>
               let len = parseInt cl in
               (case map_of allLists name of
                  None \<Rightarrow> (allLists, Some TypeError)
                | Some l \<Rightarrow>
                    let idLists1 =
                          AList.update name (l\<lparr>readBytes := plus_number (readBytes l) len\<rparr>) allLists
                    in (case content of
                          None \<Rightarrow> (idLists1, Some BodyError)
                        | Some txt \<Rightarrow>
                            (case updateIdList idLists1 name txt of
                               (idLists2, threw) \<Rightarrow>
                                 (idLists2, if threw then Some UpdateError else None))))))"

section \<open>ConfigEvaluation and EvaluationDetails\<close>

record SecondaryExposure =
  gate :: string
  gateValue :: string
  ruleID :: string

text \<open>\<^verbatim>\<open>serverTime\<close> is \<^verbatim>\<open>Date.now()\<close>: the clock is the parameter \<open>now\<close>.\<close>

record EvaluationDetails =
  configSyncTime :: real
  initTime :: real
  serverTime :: real
  reason :: EvaluationReason

definition EvaluationDetails_make ::
  "real \<Rightarrow> real \<Rightarrow> real \<Rightarrow> EvaluationReason \<Rightarrow> EvaluationDetails" where
  "EvaluationDetails_make now syncTime initialTime r =
     \<lparr>configSyncTime = syncTime, initTime = initialTime, serverTime = now, reason = r\<rparr>"

definition EvaluationDetails_uninitialized :: "real \<Rightarrow> EvaluationDetails" where
  "EvaluationDetails_uninitialized now = EvaluationDetails_make now 0 0 Uninitialized"

definition EvaluationDetails_unsupported :: "real \<Rightarrow> real \<Rightarrow> real \<Rightarrow> EvaluationDetails" where
  "EvaluationDetails_unsupported now syncTime initialTime =
     EvaluationDetails_make now syncTime initialTime Unsupported"

text \<open>The field \<^verbatim>\<open>value\<close> of the class is \<open>result_value\<close> here.\<close>

record ConfigEvaluation =
  result_value :: bool
  rule_id :: string
  secondary_exposures :: "SecondaryExposure list"
  json_value :: json
  explicit_parameters :: "string list option"
  config_delegate :: "string option"
  unsupported :: bool
  undelegated_secondary_exposures :: "SecondaryExposure list option"
  is_experiment_group :: bool
  group_name :: "string option"
  evaluation_details :: "EvaluationDetails option"
  configVersion :: "int option"

text \<open>
  The constructor, with every argument given: the call sites below write out the
  defaults (\<^verbatim>\<open>rule_id\<close> the empty string, \<^verbatim>\<open>group_name = null\<close>,
  \<^verbatim>\<open>secondary_exposures = []\<close>, \<^verbatim>\<open>json_value = {}\<close>, \<^verbatim>\<open>explicit_parameters = null\<close>,
  \<^verbatim>\<open>config_delegate = null\<close>, \<^verbatim>\<open>configVersion = undefined\<close>, \<^verbatim>\<open>unsupported = false\<close>).
  A boolean \<^verbatim>\<open>json_value\<close> is the legacy gate case and becomes \<^verbatim>\<open>{}\<close>. The same array
  is stored in \<^verbatim>\<open>secondary_exposures\<close> and \<^verbatim>\<open>undelegated_secondary_exposures\<close>.
\<close>

definition ConfigEvaluation_new ::
  "bool \<Rightarrow> string \<Rightarrow> string option \<Rightarrow> SecondaryExposure list \<Rightarrow> json \<Rightarrow> string list option \<Rightarrow>
   string option \<Rightarrow> int option \<Rightarrow> bool \<Rightarrow> ConfigEvaluation" where
  "ConfigEvaluation_new v rid gname exposures jv params delegate ver unsup =
     \<lparr>result_value = v, rule_id = rid, secondary_exposures = exposures,
      json_value = (case jv of JBool b \<Rightarrow> JObj [] | _ \<Rightarrow> jv),
      explicit_parameters = params, config_delegate = delegate, unsupported = unsup,
      undelegated_secondary_exposures = Some exposures, is_experiment_group = False,
      group_name = gname, evaluation_details = None, configVersion = ver\<rparr>"

definition withEvaluationDetails :: "ConfigEvaluation \<Rightarrow> EvaluationDetails \<Rightarrow> ConfigEvaluation" where
  "withEvaluationDetails e d = e\<lparr>evaluation_details := Some d\<rparr>"

definition setIsExperimentGroup :: "ConfigEvaluation \<Rightarrow> bool \<Rightarrow> ConfigEvaluation" where
  "setIsExperimentGroup e b = e\<lparr>is_experiment_group := b\<rparr>"

definition ConfigEvaluation_unsupported :: "real \<Rightarrow> real \<Rightarrow> real \<Rightarrow> int option \<Rightarrow> ConfigEvaluation" where
  "ConfigEvaluation_unsupported now syncTime initialTime ver =
     withEvaluationDetails
       (ConfigEvaluation_new False [] None [] (JObj []) None None ver True)
       (EvaluationDetails_unsupported now syncTime initialTime)"

section \<open>Evaluator\<close>

text \<open>
  Modelled from the spec: \<^verbatim>\<open>StatsigUser\<close> is not among the sources; the fields are
  those the evaluator reads. An object (\<^verbatim>\<open>customIDs\<close>, \<^verbatim>\<open>custom\<close>, ...) is the list of
  its entries in the order of \<^verbatim>\<open>Object.keys\<close>.
\<close>

record StatsigUser =
  userID :: "string option"
  email :: "string option"
  ip :: "string option"
  userAgent :: "string option"
  country :: "string option"
  user_locale :: "string option"
  appVersion :: "string option"
  custom :: "(string \<times> json) list option"
  privateAttributes :: "(string \<times> json) list option"
  customIDs :: "(string \<times> string) list option"
  statsigEnvironment :: "(string \<times> string) list option"

text \<open>
  The override maps are \<^verbatim>\<open>Record<string, Record<string, boolean>>\<close> for gates and
  \<^verbatim>\<open>Record<string, Record<string, Record<string, unknown>>>\<close> for configs and layers;
  a stored config or layer value is an object, the list of its entries. The maps here
  hold the entries that \<^verbatim>\<open>overrideGate\<close>, \<^verbatim>\<open>overrideConfig\<close> and \<^verbatim>\<open>overrideLayer\<close>
  stored. In the code they are plain objects, and a read \<^verbatim>\<open>overrides[key]\<close> with no entry
  under \<open>key\<close> finds the member of \<^verbatim>\<open>Object.prototype\<close> of that name when there is one
  (\<^verbatim>\<open>constructor\<close>, \<^verbatim>\<open>toString\<close>, \<^verbatim>\<open>valueOf\<close>, \<^verbatim>\<open>__proto__\<close>, ...), which is not
  \<^verbatim>\<open>null\<close>: the lookups below are those of the code for gate, config and layer names and
  user IDs that are not such names.
\<close>

record Evaluator =
  gateOverrides :: "string \<rightharpoonup> (string \<rightharpoonup> bool)"
  configOverrides :: "string \<rightharpoonup> (string \<rightharpoonup> (string \<times> json) list)"
  layerOverrides :: "string \<rightharpoonup> (string \<rightharpoonup> (string \<times> json) list)"
  specStore :: SpecStore

text \<open>
  \<^verbatim>\<open>
  const overrides = this.gateOverrides[gateName] ?? {};
  overrides[userID == null ? '' : userID] = value;
  this.gateOverrides[gateName] = overrides;
  \<close>
\<close>

definition override_key :: "string option \<Rightarrow> string" where
  "override_key uid = (case uid of None \<Rightarrow> [] | Some u \<Rightarrow> u)"

definition overrideGate :: "Evaluator \<Rightarrow> string \<Rightarrow> bool \<Rightarrow> string option \<Rightarrow> Evaluator" where
  "overrideGate ev gateName v uid =
     (let overrides = (case gateOverrides ev gateName of None \<Rightarrow> Map.empty | Some m \<Rightarrow> m)
      in ev\<lparr>gateOverrides := (gateOverrides ev)(gateName \<mapsto> overrides(override_key uid \<mapsto> v))\<rparr>)"

definition overrideConfig ::
  "Evaluator \<Rightarrow> string \<Rightarrow> (string \<times> json) list \<Rightarrow> string option \<Rightarrow> Evaluator" where
  "overrideConfig ev configName v uid =
     (let overrides = (case configOverrides ev configName of None \<Rightarrow> Map.empty | Some m \<Rightarrow> m)
      in ev\<lparr>configOverrides :=
              (configOverrides ev)(configName \<mapsto> overrides(override_key uid \<mapsto> v))\<rparr>)"

definition overrideLayer ::
  "Evaluator \<Rightarrow> string \<Rightarrow> (string \<times> json) list \<Rightarrow> string option \<Rightarrow> Evaluator" where
  "overrideLayer ev layerName v uid =
     (let overrides = (case layerOverrides ev layerName of None \<Rightarrow> Map.empty | Some m \<Rightarrow> m)
      in ev\<lparr>layerOverrides :=
              (layerOverrides ev)(layerName \<mapsto> overrides(override_key uid \<mapsto> v))\<rparr>)"

text \<open>
  \<^verbatim>\<open>
  const overrides = this.gateOverrides[gateName];
  if (overrides == null) { return null; }
  if (user.userID != null) {
    const userOverride = overrides[user.userID];
    if (userOverride != null) { return new ConfigEvaluation(userOverride, 'override'); }
  }
  const allOverride = overrides[''];
  if (allOverride != null) { return new ConfigEvaluation(allOverride, 'override'); }
  return null;
  \<close>
\<close>

definition lookupGateOverride :: "Evaluator \<Rightarrow> StatsigUser \<Rightarrow> string \<Rightarrow> ConfigEvaluation option" where
  "lookupGateOverride ev user gateName =
     (case gateOverrides ev gateName of
        None \<Rightarrow> None
      | Some overrides \<Rightarrow>
          (case (case userID user of None \<Rightarrow> None | Some uid \<Rightarrow> overrides uid) of
             Some userOverride \<Rightarrow>
               Some (ConfigEvaluation_new userOverride ''override'' None [] (JObj []) None None
                       None False)
           | None \<Rightarrow>
               (case overrides [] of
                  Some allOverride \<Rightarrow>
                    Some (ConfigEvaluation_new allOverride ''override'' None [] (JObj []) None
                            None None False)
                | None \<Rightarrow> None)))"

definition lookupConfigBasedOverride ::
  "StatsigUser \<Rightarrow> (string \<rightharpoonup> (string \<times> json) list) option \<Rightarrow> ConfigEvaluation option" where
  "lookupConfigBasedOverride user overridesOpt =
     (case overridesOpt of
        None \<Rightarrow> None
      | Some overrides \<Rightarrow>
          (case (case userID user of None \<Rightarrow> None | Some uid \<Rightarrow> overrides uid) of
             Some userOverride \<Rightarrow>
               Some (ConfigEvaluation_new True ''override'' None [] (JObj userOverride) None
                       None None False)
           | None \<Rightarrow>
               (case overrides [] of
                  Some allOverride \<Rightarrow>
                    Some (ConfigEvaluation_new True ''override'' None [] (JObj allOverride) None
                            None None False)
                | None \<Rightarrow> None)))"

definition lookupConfigOverride :: "Evaluator \<Rightarrow> StatsigUser \<Rightarrow> string \<Rightarrow> ConfigEvaluation option" where
  "lookupConfigOverride ev user configName =
     lookupConfigBasedOverride user (configOverrides ev configName)"

definition lookupLayerOverride :: "Evaluator \<Rightarrow> StatsigUser \<Rightarrow> string \<Rightarrow> ConfigEvaluation option" where
  "lookupLayerOverride ev user layerName =
     lookupConfigBasedOverride user (layerOverrides ev layerName)"

text \<open>
  The entry the claim on overrides describes: the one stored under the user's ID when
  there is one, otherwise the one stored under the empty string, the global key.
\<close>

definition override_entry :: "(string \<rightharpoonup> 'v) \<Rightarrow> StatsigUser \<Rightarrow> 'v option" where
  "override_entry overrides user =
     (if userID user \<noteq> None \<and> overrides (the (userID user)) \<noteq> None
      then overrides (the (userID user))
      else overrides [])"

subsection \<open>Exposures\<close>

definition startsWith :: "string \<Rightarrow> string \<Rightarrow> bool" where
  "startsWith s p \<longleftrightarrow> take (length p) s = p"

text \<open>
  \<^verbatim>\<open>_cleanExposures\<close>: the exposures of segments are dropped, then an exposure whose
  key \<^verbatim>\<open>`${gate}|${gateValue}|${ruleID}`\<close> was seen already is dropped.
\<close>

fun dedupe :: "string list \<Rightarrow> SecondaryExposure list \<Rightarrow> SecondaryExposure list" where
  "dedupe seen [] = []"
| "dedupe seen (e # es) =
     (let key = gate e @ ''|'' @ gateValue e @ ''|'' @ ruleID e
      in if key \<in> set seen then dedupe seen es else e # dedupe (key # seen) es)"

definition cleanExposures :: "SecondaryExposure list \<Rightarrow> SecondaryExposure list" where
  "cleanExposures exposures =
     dedupe [] (filter (\<lambda>exposure. \<not> startsWith (gate exposure) ''segment:'') exposures)"

subsection \<open>What the evaluator takes from outside\<close>

text \<open>The result of \<^verbatim>\<open>_evalCondition\<close>; its optional field \<^verbatim>\<open>unsupported\<close> is falsy when absent.\<close>

record cond_result =
  passes :: bool
  cond_unsupported :: bool
  exposures :: "SecondaryExposure list option"

text \<open>
  What the evaluator takes from outside: \<^verbatim>\<open>computeUserHash\<close> as a function of its
  string; the clock \<^verbatim>\<open>Date.now()\<close>; \<^verbatim>\<open>String(v)\<close> on a JSON value that is a number, an
  array or an object; \<^verbatim>\<open>String.prototype.toLowerCase\<close>; the members of
  \<^verbatim>\<open>Object.prototype\<close>, which a read \<^verbatim>\<open>object[key]\<close> of a plain object finds when the
  object has no property of its own under the key: \<open>x_inherited key\<close> is the string the
  member under that key (\<^verbatim>\<open>constructor\<close>, \<^verbatim>\<open>toString\<close>, \<^verbatim>\<open>__proto__\<close>, ...) converts to
  under \<^verbatim>\<open>+\<close>, and \<open>None\<close> when there is no such member; \<^verbatim>\<open>hashString\<close>,
  \<^verbatim>\<open>getSDKType\<close> and \<^verbatim>\<open>getSDKVersion\<close>, which are not among the sources; and the second
  half of \<^verbatim>\<open>_evalCondition\<close>, which for the condition types \<^verbatim>\<open>ip_based\<close>, \<^verbatim>\<open>ua_based\<close>,
  \<^verbatim>\<open>user_field\<close>, \<^verbatim>\<open>environment_field\<close>, \<^verbatim>\<open>current_time\<close>, \<^verbatim>\<open>user_bucket\<close> and \<^verbatim>\<open>unit_id\<close>
  reads a value from the user and compares it with the target under the condition's
  operator (with \<^verbatim>\<open>Date\<close>, \<^verbatim>\<open>RegExp\<close>, the user-agent parser and JavaScript's loose
  equality). That half calls no gate; it returns a result, possibly \<^verbatim>\<open>unsupported\<close>, or
  throws (\<open>None\<close>). Every theorem below holds whatever these functions are.
\<close>

record externals =
  x_computeUserHash :: "string \<Rightarrow> 64 word"
  x_now :: real
  x_String :: "json \<Rightarrow> string"
  x_toLowerCase :: "string \<Rightarrow> string"
  x_inherited :: "string \<Rightarrow> string option"
  x_evalValueCondition :: "SpecStore \<Rightarrow> StatsigUser \<Rightarrow> ConfigCondition \<Rightarrow> cond_result option"
  x_hashString :: "string \<Rightarrow> string option \<Rightarrow> string"
  x_getSDKType :: string
  x_getSDKVersion :: string

text \<open>\<^verbatim>\<open>String(v)\<close> on a JSON value and on a boolean.\<close>

definition String_bool :: "bool \<Rightarrow> string" where
  "String_bool b = (if b then ''true'' else ''false'')"

definition String_json :: "externals \<Rightarrow> json \<Rightarrow> string" where
  "String_json x v =
     (case v of JStr s \<Rightarrow> s | JBool b \<Rightarrow> String_bool b | JNull \<Rightarrow> ''null'' | _ \<Rightarrow> x_String x v)"

subsection \<open>Unit IDs and allocation\<close>

text \<open>
  \<^verbatim>\<open>getParameterCaseInsensitive\<close>: the value under the first key, in the order of
  \<^verbatim>\<open>Object.keys\<close>, that equals the wanted key once both are in lower case.
\<close>

definition getParameterCaseInsensitive ::
  "externals \<Rightarrow> (string \<times> 'v) list option \<Rightarrow> string \<Rightarrow> 'v option" where
  "getParameterCaseInsensitive x object k =
     (case object of
        None \<Rightarrow> None
      | Some entries \<Rightarrow>
          (case find (\<lambda>k'. x_toLowerCase x k' = x_toLowerCase x k) (map fst entries) of
             None \<Rightarrow> None
           | Some keyMatch \<Rightarrow> map_of entries keyMatch))"

text \<open>
  \<^verbatim>\<open>
  _getUnitID(user: StatsigUser, idType: string) {
    if (typeof idType === 'string' && idType.toLowerCase() !== 'userid') {
      const unitID = user?.customIDs?.[idType];
      if (unitID !== undefined) { return unitID; }
      return getParameterCaseInsensitive(user?.customIDs, idType);
    }
    return user?.userID;
  }
  \<close>
  An \<^verbatim>\<open>idType\<close> that is not a string is \<open>None\<close>. The read \<^verbatim>\<open>customIDs[idType]\<close> finds
  the user's own entry, or else a member of \<^verbatim>\<open>Object.prototype\<close> under that name; the
  caller only concatenates the result, so such a member is the string it converts to.
\<close>

definition getUnitID :: "externals \<Rightarrow> StatsigUser \<Rightarrow> string option \<Rightarrow> string option" where
  "getUnitID x user idType =
     (if idType \<noteq> None \<and> x_toLowerCase x (the idType) \<noteq> ''userid''
      then
        (case (case customIDs user of
                 None \<Rightarrow> None
               | Some cids \<Rightarrow>
                   (case map_of cids (the idType) of
                      Some own \<Rightarrow> Some own
                    | None \<Rightarrow> x_inherited x (the idType))) of
           Some unitID \<Rightarrow> Some unitID
         | None \<Rightarrow> getParameterCaseInsensitive x (customIDs user) (the idType))
      else userID user)"

text \<open>
  The claim's words for the unit ID that enters the hash: the user ID when the ID type
  is missing or is \<^verbatim>\<open>userid\<close> in lower case; otherwise what \<^verbatim>\<open>customIDs[idType]\<close> reads
  (the entry of that name, or else the inherited member of that name), or else the
  first entry whose name matches in lower case; the empty string when there is none.
\<close>

definition unitID :: "externals \<Rightarrow> StatsigUser \<Rightarrow> string option \<Rightarrow> string" where
  "unitID x user idType =
     (if idType = None \<or> x_toLowerCase x (the idType) = ''userid''
      then (case userID user of Some u \<Rightarrow> u | None \<Rightarrow> [])
      else
        case customIDs user of
          None \<Rightarrow> []
        | Some entries \<Rightarrow>
            (case filter (\<lambda>entry. fst entry = the idType) entries of
               entry # _ \<Rightarrow> snd entry
             | [] \<Rightarrow>
                 (case x_inherited x (the idType) of
                    Some member \<Rightarrow> member
                  | None \<Rightarrow>
                      (case filter (\<lambda>entry. x_toLowerCase x (fst entry)
                                               = x_toLowerCase x (the idType)) entries of
                         entry # _ \<Rightarrow> snd entry
                       | [] \<Rightarrow> []))))"

definition CONDITION_SEGMENT_COUNT :: nat where
  "CONDITION_SEGMENT_COUNT = 10 * 1000"

text \<open>
  \<^verbatim>\<open>
  _evalPassPercent(user: StatsigUser, rule: ConfigRule, config: ConfigSpec) {
    const hash = computeUserHash(
      config.salt + '.' + (rule.salt ?? rule.id) + '.' +
        (this._getUnitID(user, rule.idType) ?? ''),
    );
    return (
      Number(hash % BigInt(CONDITION_SEGMENT_COUNT)) < rule.passPercentage * 100
    );
  }
  \<close>
  The string that is hashed is \<open>allocation_key\<close>. The product is the product of two
  doubles.
\<close>

definition allocation_key :: "externals \<Rightarrow> StatsigUser \<Rightarrow> ConfigRule \<Rightarrow> ConfigSpec \<Rightarrow> string" where
  "allocation_key x user rule config =
     s_salt config @ ''.'' @ (case r_salt rule of Some s \<Rightarrow> s | None \<Rightarrow> r_id rule) @ ''.''
     @ (case getUnitID x user (r_idType rule) of Some u \<Rightarrow> u | None \<Rightarrow> [])"

definition evalPassPercent :: "externals \<Rightarrow> StatsigUser \<Rightarrow> ConfigRule \<Rightarrow> ConfigSpec \<Rightarrow> bool" where
  "evalPassPercent x user rule config =
     (let hash = x_computeUserHash x (allocation_key x user rule config)
      in real (unat hash mod CONDITION_SEGMENT_COUNT) < js_times (passPercentage rule) 100)"

subsection \<open>Conditions\<close>

text \<open>
  A call that can throw returns an \<open>option\<close>, \<open>None\<close> for the exception. The functions
  of the evaluator call each other through \<^verbatim>\<open>checkGate\<close> and through the delegate of
  a rule; each takes the function it calls back as an argument, and \<open>evalN\<close> below
  closes the recursion.
\<close>

type_synonym checkGate_fn = "StatsigUser \<Rightarrow> string \<Rightarrow> ConfigEvaluation option"
type_synonym eval_fn = "StatsigUser \<Rightarrow> ConfigSpec \<Rightarrow> ConfigEvaluation option"

definition unsupported_condition :: cond_result where
  "unsupported_condition = \<lparr>passes = False, cond_unsupported = True, exposures = None\<rparr>"

text \<open>
  The loop of the \<^verbatim>\<open>multi_pass_gate\<close> and \<^verbatim>\<open>multi_fail_gate\<close> conditions: it stops at
  the first gate with the wanted value. The exposure of a gate goes before that gate's
  own secondary exposures.
\<close>

fun multiGate ::
  "externals \<Rightarrow> checkGate_fn \<Rightarrow> StatsigUser \<Rightarrow> bool \<Rightarrow> json list \<Rightarrow> SecondaryExposure list \<Rightarrow>
   cond_result option" where
  "multiGate x cg user isPass [] exps =
     Some \<lparr>passes = False, cond_unsupported = False, exposures = Some exps\<rparr>"
| "multiGate x cg user isPass (gateName # rest) exps =
     (case cg user (String_json x gateName) of
        None \<Rightarrow> None
      | Some gateResult \<Rightarrow>
          if unsupported gateResult then Some unsupported_condition
          else
            let resValue = (if isPass then result_value gateResult else \<not> result_value gateResult);
                exps1 = (exps @ [\<lparr>gate = String_json x gateName,
                                  gateValue = String_bool (result_value gateResult),
                                  ruleID = rule_id gateResult\<rparr>])
                        @ secondary_exposures gateResult
            in if resValue
               then Some \<lparr>passes = True, cond_unsupported = False, exposures = Some exps1\<rparr>
               else multiGate x cg user isPass rest exps1)"

text \<open>
  \<^verbatim>\<open>_evalCondition\<close>. The switch is on \<^verbatim>\<open>condition.type.toLowerCase()\<close>; the polarity
  of a multi-gate condition is read from \<^verbatim>\<open>condition.type\<close> as it is written.
\<close>

definition evalCondition ::
  "externals \<Rightarrow> Evaluator \<Rightarrow> checkGate_fn \<Rightarrow> StatsigUser \<Rightarrow> ConfigCondition \<Rightarrow> cond_result option" where
  "evalCondition x ev cg user condition =
     (let target = targetValue condition;
          t = x_toLowerCase x (c_type condition)
      in
      if t = ''public'' then Some \<lparr>passes = True, cond_unsupported = False, exposures = None\<rparr>
      else if t = ''fail_gate'' \<or> t = ''pass_gate'' then
        (case cg user (String_json x target) of
           None \<Rightarrow> None
         | Some gateResult \<Rightarrow>
             if unsupported gateResult then Some unsupported_condition
             else
               let v = result_value gateResult;
                   allExposures = secondary_exposures gateResult
                     @ [\<lparr>gate = String_json x target, gateValue = String_bool v,
                         ruleID = rule_id gateResult\<rparr>]
               in Some \<lparr>passes = (if t = ''fail_gate'' then \<not> v else v),
                        cond_unsupported = False, exposures = Some allExposures\<rparr>)
      else if t = ''multi_pass_gate'' \<or> t = ''multi_fail_gate'' then
        (case target of
           JArr gateNames \<Rightarrow>
             multiGate x cg user (c_type condition = ''multi_pass_gate'') gateNames []
         | _ \<Rightarrow> Some unsupported_condition)
      else if t \<in> set [''ip_based'', ''ua_based'', ''user_field'', ''environment_field'',
                        ''current_time'', ''user_bucket'', ''unit_id'']
      then x_evalValueCondition x (specStore ev) user condition
      else Some unsupported_condition)"

subsection \<open>Rules\<close>

text \<open>
  \<^verbatim>\<open>
  _evalRule(user: StatsigUser, rule: ConfigRule) {
    let secondaryExposures: SecondaryExposure[] = [];
    let pass = true;
    for (const condition of rule.conditions) {
      const result = this._evalCondition(user, condition);
      if (result.unsupported) {
        return ConfigEvaluation.unsupported(
          this.store.getLastUpdateTime(), this.store.getInitialUpdateTime(), undefined);
      }
      if (!result.passes) { pass = false; }
      if (result.exposures) {
        secondaryExposures = secondaryExposures.concat(result.exposures);
      }
    }
    const evaluation = new ConfigEvaluation(
      pass, rule.id, rule.groupName, secondaryExposures,
      rule.returnValue as Record<string, unknown>);
    evaluation.setIsExperimentGroup(rule.isExperimentGroup ?? false);
    return evaluation;
  }
  \<close>
  \<open>evalRule_loop\<close> is the \<^verbatim>\<open>for\<close> loop from the conditions that are left, with the two
  local variables.
\<close>

fun evalRule_loop ::
  "externals \<Rightarrow> Evaluator \<Rightarrow> checkGate_fn \<Rightarrow> StatsigUser \<Rightarrow> ConfigRule \<Rightarrow> ConfigCondition list \<Rightarrow>
   SecondaryExposure list \<Rightarrow> bool \<Rightarrow> ConfigEvaluation option" where
  "evalRule_loop x ev cg user rule [] secondaryExposures pass =
     Some (setIsExperimentGroup
             (ConfigEvaluation_new pass (r_id rule) (groupName rule) secondaryExposures
                (returnValue rule) None None None False)
             (case isExperimentGroup rule of Some b \<Rightarrow> b | None \<Rightarrow> False))"
| "evalRule_loop x ev cg user rule (condition # rest) secondaryExposures pass =
     (case evalCondition x ev cg user condition of
        None \<Rightarrow> None
      | Some result \<Rightarrow>
          if cond_unsupported result
          then Some (ConfigEvaluation_unsupported (x_now x) (lastUpdateTime (specStore ev))
                       (initialUpdateTime (specStore ev)) None)
          else evalRule_loop x ev cg user rule rest
                 (case exposures result of
                    Some es \<Rightarrow> secondaryExposures @ es
                  | None \<Rightarrow> secondaryExposures)
                 (if \<not> passes result then False else pass))"

definition evalRule ::
  "externals \<Rightarrow> Evaluator \<Rightarrow> checkGate_fn \<Rightarrow> StatsigUser \<Rightarrow> ConfigRule \<Rightarrow> ConfigEvaluation option" where
  "evalRule x ev cg user rule = evalRule_loop x ev cg user rule (conditions rule) [] True"

subsection \<open>Specs\<close>

text \<open>
  \<^verbatim>\<open>
  _evalDelegate(user, rule, exposures) {
    if (rule.configDelegate == null) { return null; }
    const config = this.store.getConfig(rule.configDelegate);
    if (!config) { return null; }
    const delegatedResult = this._eval(user, config);
    delegatedResult.config_delegate = rule.configDelegate;
    delegatedResult.undelegated_secondary_exposures = exposures;
    delegatedResult.explicit_parameters = config.explicitParameters;
    delegatedResult.secondary_exposures = exposures.concat(
      delegatedResult.secondary_exposures);
    delegatedResult.group_name =
      delegatedResult.group_name ?? rule.groupName ?? null;
    return delegatedResult;
  }
  \<close>
  The result is \<open>None\<close> when the recursive \<^verbatim>\<open>_eval\<close> throws and \<open>Some None\<close> for \<^verbatim>\<open>null\<close>.
\<close>

definition evalDelegate ::
  "Evaluator \<Rightarrow> eval_fn \<Rightarrow> StatsigUser \<Rightarrow> ConfigRule \<Rightarrow> SecondaryExposure list \<Rightarrow>
   ConfigEvaluation option option" where
  "evalDelegate ev evalRec user rule exps =
     (case configDelegate rule of
        None \<Rightarrow> Some None
      | Some delegate \<Rightarrow>
          (case getConfig (specStore ev) delegate of
             None \<Rightarrow> Some None
           | Some config \<Rightarrow>
               (case evalRec user config of
                  None \<Rightarrow> None
                | Some delegatedResult \<Rightarrow>
                    Some (Some (delegatedResult
                      \<lparr>config_delegate := Some delegate,
                       undelegated_secondary_exposures := Some exps,
                       explicit_parameters := explicitParameters config,
                       secondary_exposures := exps @ secondary_exposures delegatedResult,
                       group_name :=
                         (case group_name delegatedResult of
                            Some g \<Rightarrow> Some g
                          | None \<Rightarrow> groupName rule)\<rparr>)))))"

text \<open>
  The loop of \<^verbatim>\<open>_eval\<close> over the rules that are left, with the exposures gathered so
  far: an unsupported rule ends the evaluation, the first rule whose value is
  \<^verbatim>\<open>true\<close> decides it, by its delegate or else by allocation.
\<close>

fun eval_loop ::
  "externals \<Rightarrow> Evaluator \<Rightarrow> checkGate_fn \<Rightarrow> eval_fn \<Rightarrow> StatsigUser \<Rightarrow> ConfigSpec \<Rightarrow>
   ConfigRule list \<Rightarrow> SecondaryExposure list \<Rightarrow> ConfigEvaluation option" where
  "eval_loop x ev cg evalRec user config [] exps =
     Some (ConfigEvaluation_new False ''default'' None exps (defaultValue config)
             (explicitParameters config) None (version config) False)"
| "eval_loop x ev cg evalRec user config (rule # rest) exps =
     (case evalRule x ev cg user rule of
        None \<Rightarrow> None
      | Some ruleResult \<Rightarrow>
          if unsupported ruleResult
          then Some (ConfigEvaluation_unsupported (x_now x) (lastUpdateTime (specStore ev))
                       (initialUpdateTime (specStore ev)) (version config))
          else
            let exps1 = exps @ secondary_exposures ruleResult in
            if result_value ruleResult
            then
              (case evalDelegate ev evalRec user rule exps1 of
                 None \<Rightarrow> None
               | Some (Some delegatedResult) \<Rightarrow> Some delegatedResult
               | Some None \<Rightarrow>
                   let pass = evalPassPercent x user rule config
                   in Some (setIsExperimentGroup
                              (ConfigEvaluation_new pass (rule_id ruleResult)
                                 (group_name ruleResult) exps1
                                 (if pass then json_value ruleResult else defaultValue config)
                                 (explicitParameters config) (config_delegate ruleResult)
                                 (version config) False)
                              (is_experiment_group ruleResult)))
            else eval_loop x ev cg evalRec user config rest exps1)"

definition eval ::
  "externals \<Rightarrow> Evaluator \<Rightarrow> checkGate_fn \<Rightarrow> eval_fn \<Rightarrow> StatsigUser \<Rightarrow> ConfigSpec \<Rightarrow>
   ConfigEvaluation option" where
  "eval x ev cg evalRec user config =
     (if \<not> enabled config
      then Some (ConfigEvaluation_new False ''disabled'' None [] (defaultValue config) None None
                   (version config) False)
      else eval_loop x ev cg evalRec user config (rules config) [])"

definition evalSpec ::
  "externals \<Rightarrow> Evaluator \<Rightarrow> eval_fn \<Rightarrow> StatsigUser \<Rightarrow> ConfigSpec option \<Rightarrow> ConfigEvaluation option" where
  "evalSpec x ev evalRec user config =
     (case config of
        None \<Rightarrow>
          Some (withEvaluationDetails (ConfigEvaluation_new False [] None [] (JObj []) None None None False)
                  (EvaluationDetails_make (x_now x) (lastUpdateTime (specStore ev))
                     (initialUpdateTime (specStore ev)) Unrecognized))
      | Some c \<Rightarrow>
          (case evalRec user c of
             None \<Rightarrow> None
           | Some e0 \<Rightarrow>
               let evaluation = e0\<lparr>secondary_exposures := cleanExposures (secondary_exposures e0)\<rparr>
               in if evaluation_details evaluation \<noteq> None then Some evaluation
                  else Some (withEvaluationDetails evaluation
                               (EvaluationDetails_make (x_now x) (lastUpdateTime (specStore ev))
                                  (initialUpdateTime (specStore ev)) (initReason (specStore ev))))))"

text \<open>
  \<^verbatim>\<open>checkGate\<close>, \<^verbatim>\<open>getConfig\<close> and \<^verbatim>\<open>getLayer\<close> of the evaluator: the override first,
  then the default of a store that is not initialised, then the spec.
\<close>

definition entry_point ::
  "externals \<Rightarrow> Evaluator \<Rightarrow> eval_fn \<Rightarrow> StatsigUser \<Rightarrow> ConfigEvaluation option \<Rightarrow>
   ConfigSpec option \<Rightarrow> ConfigEvaluation option" where
  "entry_point x ev evalRec user override spec =
     (case override of
        Some e \<Rightarrow>
          Some (withEvaluationDetails e
                  (EvaluationDetails_make (x_now x) (lastUpdateTime (specStore ev))
                     (initialUpdateTime (specStore ev)) LocalOverride))
      | None \<Rightarrow>
          if initReason (specStore ev) = Uninitialized
          then Some (withEvaluationDetails
                       (ConfigEvaluation_new False [] None [] (JObj []) None None None False)
                       (EvaluationDetails_uninitialized (x_now x)))
          else evalSpec x ev evalRec user spec)"

definition checkGate :: "externals \<Rightarrow> Evaluator \<Rightarrow> eval_fn \<Rightarrow> checkGate_fn" where
  "checkGate x ev evalRec user gateName =
     entry_point x ev evalRec user (lookupGateOverride ev user gateName)
       (getGate (specStore ev) gateName)"

definition Evaluator_getConfig :: "externals \<Rightarrow> Evaluator \<Rightarrow> eval_fn \<Rightarrow> checkGate_fn" where
  "Evaluator_getConfig x ev evalRec user configName =
     entry_point x ev evalRec user (lookupConfigOverride ev user configName)
       (getConfig (specStore ev) configName)"

definition Evaluator_getLayer :: "externals \<Rightarrow> Evaluator \<Rightarrow> eval_fn \<Rightarrow> checkGate_fn" where
  "Evaluator_getLayer x ev evalRec user layerName =
     entry_point x ev evalRec user (lookupLayerOverride ev user layerName)
       (getLayer (specStore ev) layerName)"

text \<open>
  \<^verbatim>\<open>_eval\<close> with its recursion closed. The first argument bounds the depth of nested
  calls of \<^verbatim>\<open>_eval\<close> (through a gate condition or a delegate), as the call stack of the
  engine does: beyond it the call throws.
\<close>

fun evalN :: "nat \<Rightarrow> externals \<Rightarrow> Evaluator \<Rightarrow> eval_fn" where
  "evalN 0 x ev = (\<lambda>user config. None)"
| "evalN (Suc n) x ev = eval x ev (checkGate x ev (evalN n x ev)) (evalN n x ev)"

text \<open>
  \<open>extends f g\<close>: wherever \<open>f\<close> returns, \<open>g\<close> returns the same. It is used to show
  that a result of \<open>evalN\<close> does not depend on the bound once the bound is large enough.
\<close>

definition extends :: "('a \<Rightarrow> 'b \<Rightarrow> 'c option) \<Rightarrow> ('a \<Rightarrow> 'b \<Rightarrow> 'c option) \<Rightarrow> bool" where
  "extends f g \<longleftrightarrow> (\<forall>a b r. f a b = Some r \<longrightarrow> g a b = Some r)"

section \<open>The client initialize response\<close>

text \<open>
  The entries of the payload. An optional field that was not set is \<open>None\<close>.
\<close>

record GateResponse =
  g_name :: string
  g_value :: bool
  g_rule_id :: string
  g_secondary_exposures :: "SecondaryExposure list"
  g_id_type :: "string option"

record InitializeResponse =
  ir_name :: string
  ir_value :: json
  ir_group :: string
  ir_rule_id :: string
  ir_is_device_based :: bool
  ir_secondary_exposures :: "SecondaryExposure list"
  ir_is_experiment_active :: "bool option"
  ir_is_user_in_experiment :: "bool option"
  ir_is_in_layer :: "bool option"
  ir_allocated_experiment_name :: "string option"
  ir_explicit_parameters :: "string list option"
  ir_undelegated_secondary_exposures :: "SecondaryExposure list option"
  ir_group_name :: "string option"
  ir_id_type :: "string option"

record EvaluatedKeys =
  ek_userID :: "string option"
  ek_customIDs :: "(string \<times> string) list option"

text \<open>
  The caller's user is an object on the heap, and the payload holds a reference to an
  object: a heap maps references to the objects they point to.
\<close>

type_synonym ref = nat
type_synonym heap = "ref \<rightharpoonup> StatsigUser"

record ClientInitializeResponse =
  cir_feature_gates :: "(string \<times> GateResponse) list"
  cir_dynamic_configs :: "(string \<times> InitializeResponse) list"
  cir_layer_configs :: "(string \<times> InitializeResponse) list"
  cir_sdkParams :: json
  cir_has_updates :: bool
  cir_generator :: string
  cir_sdkInfo :: "string \<times> string"
  cir_time :: real
  cir_evaluated_keys :: EvaluatedKeys
  cir_hash_used :: string
  cir_user :: ref

definition specToInitializeResponse ::
  "externals \<Rightarrow> ConfigSpec \<Rightarrow> ConfigEvaluation \<Rightarrow> string option \<Rightarrow> InitializeResponse" where
  "specToInitializeResponse x spec res hashAlg =
     \<lparr>ir_name = x_hashString x (s_name spec) hashAlg,
      ir_value = (if unsupported res then JObj [] else json_value res),
      ir_group = rule_id res,
      ir_rule_id = rule_id res,
      ir_is_device_based =
        (s_idType spec \<noteq> None \<and> x_toLowerCase x (the (s_idType spec)) = ''stableid''),
      ir_secondary_exposures = cleanExposures (secondary_exposures res),
      ir_is_experiment_active = None,
      ir_is_user_in_experiment = None,
      ir_is_in_layer = None,
      ir_allocated_experiment_name = None,
      ir_explicit_parameters = explicit_parameters res,
      ir_undelegated_secondary_exposures = None,
      ir_group_name = (if group_name res \<noteq> None \<and> group_name res \<noteq> Some [] then group_name res else None),
      ir_id_type = None\<rparr>"

definition isExperimentActive :: "ConfigSpec option \<Rightarrow> bool" where
  "isExperimentActive experimentConfig =
     (case experimentConfig of None \<Rightarrow> False | Some c \<Rightarrow> isActive c = Some True)"

definition isUserAllocatedToExperiment ::
  "eval_fn \<Rightarrow> StatsigUser \<Rightarrow> ConfigSpec option \<Rightarrow> bool option" where
  "isUserAllocatedToExperiment evalRec user experimentConfig =
     (case experimentConfig of
        None \<Rightarrow> Some False
      | Some c \<Rightarrow> map_option is_experiment_group (evalRec user c))"

text \<open>
  \<^verbatim>\<open>{...layerValue, ...(format.value as object)}\<close> on two objects: the entries of the
  first, each overwritten in place by the second, then the new entries of the second.
\<close>

definition object_entries :: "json \<Rightarrow> (string \<times> json) list" where
  "object_entries v = (case v of JObj kvs \<Rightarrow> kvs | _ \<Rightarrow> [])"

definition spread :: "json \<Rightarrow> json \<Rightarrow> json" where
  "spread a b = JObj (foldl (\<lambda>m (k, v). AList.update k v m) (object_entries a) (object_entries b))"

text \<open>The three \<^verbatim>\<open>.map\<close> callbacks; a gate of a segment or a holdout gives \<^verbatim>\<open>null\<close>.\<close>

definition gateResponse ::
  "externals \<Rightarrow> eval_fn \<Rightarrow> StatsigUser \<Rightarrow> string option \<Rightarrow> string \<times> ConfigSpec \<Rightarrow>
   GateResponse option option" where
  "gateResponse x evalRec user hashAlg entry =
     (case entry of (gateKey, spec) \<Rightarrow>
        if entity spec = ''segment'' \<or> entity spec = ''holdout'' then Some None
        else
          (case evalRec user spec of
             None \<Rightarrow> None
           | Some res \<Rightarrow>
               Some (Some \<lparr>g_name = x_hashString x gateKey hashAlg,
                           g_value = (if unsupported res then False else result_value res),
                           g_rule_id = rule_id res,
                           g_secondary_exposures = cleanExposures (secondary_exposures res),
                           g_id_type = s_idType spec\<rparr>)))"

definition configResponse ::
  "externals \<Rightarrow> Evaluator \<Rightarrow> eval_fn \<Rightarrow> StatsigUser \<Rightarrow> string option \<Rightarrow> string \<times> ConfigSpec \<Rightarrow>
   InitializeResponse option" where
  "configResponse x ev evalRec user hashAlg entry =
     (case entry of (configKey, spec) \<Rightarrow>
        (case evalRec user spec of
           None \<Rightarrow> None
         | Some res \<Rightarrow>
             let format0 = specToInitializeResponse x spec res hashAlg;
                 format1 = (if s_idType spec \<noteq> None then format0\<lparr>ir_id_type := s_idType spec\<rparr>
                            else format0)
             in
             if entity spec \<noteq> ''dynamic_config'' \<and> entity spec \<noteq> ''autotune'' then
               (case isUserAllocatedToExperiment evalRec user (Some spec) of
                  None \<Rightarrow> None
                | Some allocated \<Rightarrow>
                    let format2 = format1\<lparr>ir_is_user_in_experiment := Some allocated,
                                          ir_is_experiment_active := Some (isExperimentActive (Some spec))\<rparr>
                    in
                    if hasSharedParams spec then
                      let layerValue =
                            (case getExperimentLayer (specStore ev) (s_name spec) of
                               None \<Rightarrow> JObj []
                             | Some layerName \<Rightarrow>
                                 (case getLayer (specStore ev) layerName of
                                    None \<Rightarrow> JObj []
                                  | Some layer \<Rightarrow> defaultValue layer))
                      in Some (format2
                           \<lparr>ir_is_in_layer := Some True,
                            ir_explicit_parameters :=
                              Some (case explicitParameters spec of Some ps \<Rightarrow> ps | None \<Rightarrow> []),
                            ir_value := spread layerValue (ir_value format2)\<rparr>)
                    else Some format2)
             else Some format1))"

definition layerResponse ::
  "externals \<Rightarrow> Evaluator \<Rightarrow> eval_fn \<Rightarrow> StatsigUser \<Rightarrow> string option \<Rightarrow> string \<times> ConfigSpec \<Rightarrow>
   InitializeResponse option" where
  "layerResponse x ev evalRec user hashAlg entry =
     (case entry of (layerKey, spec) \<Rightarrow>
        (case evalRec user spec of
           None \<Rightarrow> None
         | Some res \<Rightarrow>
             let format0 = (specToInitializeResponse x spec res hashAlg)
                   \<lparr>ir_explicit_parameters :=
                      Some (case explicitParameters spec of Some ps \<Rightarrow> ps | None \<Rightarrow> [])\<rparr>;
                 undelegated = cleanExposures
                   (case undelegated_secondary_exposures res of Some es \<Rightarrow> es | None \<Rightarrow> [])
             in
             if config_delegate res \<noteq> None \<and> config_delegate res \<noteq> Some [] then
               let delegateSpec = getConfig (specStore ev) (the (config_delegate res)) in
               (case isUserAllocatedToExperiment evalRec user delegateSpec of
                  None \<Rightarrow> None
                | Some allocated \<Rightarrow>
                    Some (format0
                      \<lparr>ir_allocated_experiment_name :=
                         Some (x_hashString x (the (config_delegate res)) hashAlg),
                       ir_is_experiment_active := Some (isExperimentActive delegateSpec),
                       ir_is_user_in_experiment := Some allocated,
                       ir_explicit_parameters :=
                         Some (case delegateSpec of
                                 None \<Rightarrow> []
                               | Some d \<Rightarrow> (case explicitParameters d of Some ps \<Rightarrow> ps | None \<Rightarrow> [])),
                       ir_undelegated_secondary_exposures := Some undelegated\<rparr>))
             else Some (format0\<lparr>ir_undelegated_secondary_exposures := Some undelegated\<rparr>)))"

text \<open>\<^verbatim>\<open>Object.assign({}, ...items.map((item) => ({ [item.name]: item })))\<close>.\<close>

definition keyed :: "('a \<Rightarrow> string) \<Rightarrow> 'a list \<Rightarrow> (string \<times> 'a) list" where
  "keyed nameOf items = foldl (\<lambda>m item. AList.update (nameOf item) item m) [] items"

definition evaluatedKeys :: "StatsigUser \<Rightarrow> EvaluatedKeys" where
  "evaluatedKeys user =
     \<lparr>ek_userID = (if userID user \<noteq> None \<and> userID user \<noteq> Some [] then userID user else None),
      ek_customIDs = (if customIDs user \<noteq> None \<and> customIDs user \<noteq> Some [] then customIDs user
                      else None)\<rparr>"

text \<open>
  \<^verbatim>\<open>getClientInitializeResponse(user, options)\<close> of the evaluator, on a heap and a
  reference to the user; \<open>hashAlg\<close> is \<^verbatim>\<open>options?.hash\<close>. The result is \<open>Some None\<close>
  for \<^verbatim>\<open>null\<close>, \<open>Some (Some payload)\<close> for a payload and \<open>None\<close> when an evaluation
  throws; the heap is the one the call leaves. The evaluations read the user before
  \<^verbatim>\<open>delete user.privateAttributes\<close> runs, and the payload holds the reference it was
  given.
\<close>

definition getClientInitializeResponse ::
  "nat \<Rightarrow> externals \<Rightarrow> Evaluator \<Rightarrow> heap \<Rightarrow> ref \<Rightarrow> string option \<Rightarrow>
   ClientInitializeResponse option option \<times> heap" where
  "getClientInitializeResponse n x ev h userRef hashAlg =
     (if \<not> isServingChecks (specStore ev) then (Some None, h)
      else
        case h userRef of
          None \<Rightarrow> (None, h)
        | Some user \<Rightarrow>
            (case those (map (gateResponse x (evalN n x ev) user hashAlg)
                           (gates (store (specStore ev)))) of
               None \<Rightarrow> (None, h)
             | Some gs \<Rightarrow>
                 (case those (map (configResponse x ev (evalN n x ev) user hashAlg)
                                (configs (store (specStore ev)))) of
                    None \<Rightarrow> (None, h)
                  | Some cs \<Rightarrow>
                      (case those (map (layerResponse x ev (evalN n x ev) user hashAlg)
                                     (layers (store (specStore ev)))) of
                         None \<Rightarrow> (None, h)
                       | Some ls \<Rightarrow>
                           (Some (Some
                              \<lparr>cir_feature_gates = keyed g_name (List.map_filter id gs),
                               cir_dynamic_configs = keyed ir_name cs,
                               cir_layer_configs = keyed ir_name ls,
                               cir_sdkParams = JObj [],
                               cir_has_updates = True,
                               cir_generator = ''statsig-node-lite-sdk'',
                               cir_sdkInfo = (x_getSDKType x, x_getSDKVersion x),
                               cir_time = lastUpdateTime (specStore ev),
                               cir_evaluated_keys = evaluatedKeys user,
                               cir_hash_used = (case hashAlg of Some a \<Rightarrow> a | None \<Rightarrow> ''sha256''),
                               cir_user = userRef\<rparr>),
                            h(userRef \<mapsto> user\<lparr>privateAttributes := None\<rparr>))))))"

section \<open>Concrete inputs\<close>

text \<open>A constructor that accepts no element, and a payload with one gate.\<close>

definition reject_all :: newConfigSpec_fn where
  "reject_all j = None"

definition payload_one_gate :: SpecsJSON where
  "payload_one_gate =
     \<lparr>has_updates = Some (JBool True), time = Time 100,
      feature_gates = Some (JArr [JObj []]), dynamic_configs = Some (JArr []),
      layer_configs = Some (JArr []), layers_field = None, diagnostics = None\<rparr>"

text \<open>
  A constructor that accepts every element and reads only its \<^verbatim>\<open>name\<close>, and an empty
  payload with a time.
\<close>

definition simple_spec :: "string \<Rightarrow> ConfigSpec" where
  "simple_spec n =
     \<lparr>s_name = n, entity = ''feature_gate'', enabled = True, s_salt = ''salt'',
      defaultValue = JObj [], s_idType = Some ''userID'', rules = [],
      explicitParameters = None, hasSharedParams = False, isActive = None, version = None\<rparr>"

definition accept_all :: newConfigSpec_fn where
  "accept_all j = Some (simple_spec (case property j ''name'' of Some (JStr n) \<Rightarrow> n | _ \<Rightarrow> []))"

definition payload_at :: "real \<Rightarrow> SpecsJSON" where
  "payload_at t =
     \<lparr>has_updates = Some (JBool True), time = Time t,
      feature_gates = Some (JArr [JObj [(''name'', JStr ''g'')]]), dynamic_configs = Some (JArr []),
      layer_configs = Some (JArr []), layers_field = None, diagnostics = None\<rparr>"

definition parse_fixed :: JSON_parse_fn where
  "parse_fixed s = (if s = ''p200'' then Some (payload_at 200) else None)"

text \<open>An ID list in the store, and the two parameters of a fetch.\<close>

definition list_l :: IDList where
  "list_l = \<lparr>ids = [], readBytes = Some 10, url = ''https://lists/l'', fileID = ''F1'',
             creationTime = 1\<rparr>"

definition parseInt_digit :: parseInt_fn where
  "parseInt_digit s = (if s = ''5'' then Some 5 else None)"

definition updateIdList_keep :: updateIdList_fn where
  "updateIdList_keep allLists name content = (allLists, False)"

text \<open>A user, the outside functions, and an evaluator with overrides and two configs.\<close>

definition user_u1 :: StatsigUser where
  "user_u1 =
     \<lparr>userID = Some ''u1'', email = None, ip = None, userAgent = None, country = None,
      user_locale = None, appVersion = None, custom = None,
      privateAttributes = Some [(''secret'', JStr ''do not log'')],
      customIDs = None, statsigEnvironment = None\<rparr>"

definition sha_fixed :: sha256Hash_fn where
  "sha_fixed s = [0, 0, 0, 0, 0, 0, 19, 136, 1, 2]"

text \<open>\<^verbatim>\<open>String.prototype.toLowerCase\<close>, on the ASCII letters.\<close>

definition lower_char :: "char \<Rightarrow> char" where
  "lower_char c =
     (let n = (of_char c :: nat) in
      if 65 \<le> n \<and> n \<le> 90
      then Char (digit0 c) (digit1 c) (digit2 c) (digit3 c) (digit4 c) True (digit6 c) (digit7 c)
      else c)"

definition toLowerCase :: "string \<Rightarrow> string" where
  "toLowerCase s = map lower_char s"

text \<open>\<^verbatim>\<open>'' + Object.prototype.constructor\<close>, the one inherited member these inputs name.\<close>

definition inherited_fixed :: "string \<Rightarrow> string option" where
  "inherited_fixed k =
     (if k = ''constructor'' then Some ''function Object() { [native code] }'' else None)"

definition x_fixed :: externals where
  "x_fixed =
     \<lparr>x_computeUserHash = sha256_u64 sha_fixed, x_now = 0, x_String = (\<lambda>v. []),
      x_toLowerCase = toLowerCase, x_inherited = inherited_fixed,
      x_evalValueCondition = (\<lambda>st user condition. None),
      x_hashString = (\<lambda>s alg. s), x_getSDKType = ''statsig-node-lite'',
      x_getSDKVersion = ''0.0.0''\<rparr>"

definition gate_condition :: "string \<Rightarrow> ConfigCondition" where
  "gate_condition g =
     \<lparr>c_type = ''pass_gate'', targetValue = JStr g, operator = None, field = None,
      c_idType = None, additionalValues = []\<rparr>"

definition public_condition :: ConfigCondition where
  "public_condition =
     \<lparr>c_type = ''public'', targetValue = JNull, operator = None, field = None,
      c_idType = None, additionalValues = []\<rparr>"

definition rule_two_gates :: ConfigRule where
  "rule_two_gates =
     \<lparr>r_id = ''r1'', r_salt = None, passPercentage = 100, returnValue = JObj [],
      r_idType = Some ''userID'', groupName = None, isExperimentGroup = None,
      configDelegate = None, conditions = [gate_condition ''g1'', gate_condition ''g2'']\<rparr>"

definition rule_delegating :: ConfigRule where
  "rule_delegating =
     \<lparr>r_id = ''rA'', r_salt = Some ''r'', passPercentage = 100, returnValue = JObj [],
      r_idType = Some ''userID'', groupName = Some ''grpA'', isExperimentGroup = None,
      configDelegate = Some ''exp_B'', conditions = [public_condition]\<rparr>"

definition exp_A :: ConfigSpec where
  "exp_A = (simple_spec ''exp_A'')\<lparr>entity := ''layer'', rules := [rule_delegating]\<rparr>"

definition exp_B :: ConfigSpec where
  "exp_B = (simple_spec ''exp_B'')
     \<lparr>entity := ''experiment'', explicitParameters := Some [''p'']\<rparr>"

definition store_AB :: "real \<Rightarrow> SpecStore" where
  "store_AB t =
     SpecStore_new
       \<lparr>initReason := Bootstrap, initialUpdateTime := t, lastUpdateTime := t,
        store := \<lparr>gates = [], configs = [(''exp_B'', exp_B)], idLists = [],
                   layers = [(''exp_A'', exp_A)], experimentToLayer = []\<rparr>\<rparr>"

definition evaluator_AB :: "real \<Rightarrow> Evaluator" where
  "evaluator_AB t =
     \<lparr>gateOverrides =
        [''g1'' \<mapsto> [[] \<mapsto> False], ''g2'' \<mapsto> [''u1'' \<mapsto> True, [] \<mapsto> False]],
      configOverrides = [''c'' \<mapsto> [[] \<mapsto> [(''k'', JNum 1)]]],
      layerOverrides = Map.empty,
      specStore = store_AB t\<rparr>"


definition user_company :: StatsigUser where
  "user_company = user_u1\<lparr>userID := Some ''someone'', customIDs := Some [(''CompanyID'', ''u1'')]\<rparr>"



section \<open>The hash-lookup cache\<close>

lemma length_update_alist:
  "length (AList.update k v al) = (if k \<in> fst ` set al then length al else Suc (length al))"
  by (induction al) auto

lemma map_fst_update_new:
  "k \<notin> fst ` set al \<Longrightarrow> map fst (AList.update k v al) = map fst al @ [k]"
  by (induction al) auto

lemma computeUserHash_size_le:
  "table_size tbl \<le> 100001 \<Longrightarrow> table_size (snd (computeUserHash sha tbl k)) \<le> 100001"
  by (auto simp: computeUserHash_def table_size_def Let_def length_update_alist split: if_splits)

text \<open>Whatever the calls, the table never holds more than 100,001 entries.\<close>

lemma computeUserHash_calls_size_le:
  "table_size tbl \<le> 100001 \<Longrightarrow> table_size (computeUserHash_calls sha tbl ks) \<le> 100001"
  by (induction ks arbitrary: tbl) (auto simp: computeUserHash_size_le)

lemma computeUserHash_calls_append:
  "computeUserHash_calls sha tbl (ks @ ks') =
   computeUserHash_calls sha (computeUserHash_calls sha tbl ks) ks'"
  by (induction ks arbitrary: tbl) auto

lemma distinct_keys_Suc: "distinct_keys (Suc n) = distinct_keys n @ [replicate n CHR ''a'']"
  by (simp add: distinct_keys_def)

lemma replicate_notin_keys: "replicate n CHR ''a'' \<notin> set (distinct_keys n)"
  by (auto simp: distinct_keys_def dest: arg_cong[where f=length])

text \<open>
  As long as at most 100,001 different keys have been hashed, each of them has its
  entry: the table is cleared only by a call that finds more than 100,000 entries.
\<close>

lemma keys_fill:
  "n \<le> 100001 \<Longrightarrow> map fst (computeUserHash_calls sha [] (distinct_keys n)) = distinct_keys n"
proof (induction n)
  case 0
  then show ?case by (simp add: distinct_keys_def)
next
  case (Suc n)
  let ?t = "computeUserHash_calls sha [] (distinct_keys n)"
  let ?k = "replicate n CHR ''a''"
  have keys: "map fst ?t = distinct_keys n" using Suc by simp
  then have len: "length ?t = n" by (metis length_map distinct_keys_def diff_zero length_upt)
  have notin: "?k \<notin> fst ` set ?t" using keys replicate_notin_keys[of n] by (metis set_map)
  then have none: "map_of ?t ?k = None" by (simp add: map_of_eq_None_iff)
  have "snd (computeUserHash sha ?t ?k) = AList.update ?k (getBigUint64 (sha ?k)) ?t"
    using none len Suc.prems by (simp add: computeUserHash_def table_size_def Let_def)
  then show ?case
    using notin keys
    by (simp add: distinct_keys_Suc computeUserHash_calls_append map_fst_update_new)
qed

text \<open>
  Claim C7. The claim: for every sequence of calls of \<^verbatim>\<open>computeUserHash\<close> the cache never
  holds more than 100,000 entries. The code tests \<^verbatim>\<open>size > 100000\<close> before it
  inserts, so a table of exactly 100,000 entries is not cleared: after the 100,001
  different keys \<open>distinct_keys 100001\<close>, hashed from the empty table, the table holds
  100,001 entries, whatever the hash function is.
\<close>

theorem computeUserHash_exceeds_cap:
  "table_size (computeUserHash_calls sha [] (distinct_keys 100001)) = 100001"
proof -
  have "length (map fst (computeUserHash_calls sha [] (distinct_keys 100001)))
        = length (distinct_keys 100001)"
    by (simp only: keys_fill[of 100001, simplified])
  then show ?thesis by (simp add: table_size_def distinct_keys_def)
qed








section \<open>Spec updates\<close>

lemma buildSpecs_None_iff:
  "buildSpecs mk js updated = None \<longleftrightarrow> list_ex (\<lambda>j. mk j = None) js"
  by (induction js arbitrary: updated) (auto split: option.splits)

lemma process_False_unchanged:
  "fst (process mk st p) = False \<Longrightarrow>
   store (snd (process mk st p)) = store st \<and>
   lastUpdateTime (snd (process mk st p)) = lastUpdateTime st"
  by (auto simp: process_def Let_def split: if_splits option.splits)

text \<open>\<^verbatim>\<open>_process\<close> returns \<^verbatim>\<open>false\<close> exactly for the four causes.\<close>

lemma process_rejected_iff: "(\<not> fst (process mk st p)) \<longleftrightarrow> rejected mk st p"
proof -
  have o: "older (time p) l \<Longrightarrow> time p \<noteq> TimeUndefined" for l by (cases "time p") auto
  have g: "(buildSpecs mk (elements (feature_gates p)) [] = None) =
           list_ex (\<lambda>j. mk j = None) (elements (feature_gates p))"
    and c: "(buildSpecs mk (elements (dynamic_configs p)) [] = None) =
           list_ex (\<lambda>j. mk j = None) (elements (dynamic_configs p))"
    and l: "(buildSpecs mk (elements (layer_configs p)) [] = None) =
           list_ex (\<lambda>j. mk j = None) (elements (layer_configs p))"
    by (simp_all only: buildSpecs_None_iff)
  show ?thesis
    using o[of "lastUpdateTime st"] g c l
    by (cases "buildSpecs mk (elements (feature_gates p)) []";
        cases "buildSpecs mk (elements (dynamic_configs p)) []";
        cases "buildSpecs mk (elements (layer_configs p)) []")
       (auto simp: process_def rejected_def Let_def)
qed

text \<open>
  Claim C1. If \<^verbatim>\<open>_process\<close> rejects the payload (\<^verbatim>\<open>has_updates\<close> is falsy, or the
  payload's time is strictly less than \<^verbatim>\<open>lastUpdateTime\<close>, or one of
  \<^verbatim>\<open>feature_gates\<close>, \<^verbatim>\<open>dynamic_configs\<close>, \<^verbatim>\<open>layer_configs\<close> is not an array, or the
  construction of one spec fails), it returns \<^verbatim>\<open>false\<close>, and the four maps and
  \<^verbatim>\<open>lastUpdateTime\<close> are what they were.
\<close>

theorem process_rejected_unchanged:
  assumes "rejected mk st specsJSON"
  shows "fst (process mk st specsJSON) = False \<and>
         gates (store (snd (process mk st specsJSON))) = gates (store st) \<and>
         configs (store (snd (process mk st specsJSON))) = configs (store st) \<and>
         layers (store (snd (process mk st specsJSON))) = layers (store st) \<and>
         experimentToLayer (store (snd (process mk st specsJSON))) = experimentToLayer (store st) \<and>
         lastUpdateTime (snd (process mk st specsJSON)) = lastUpdateTime st"
proof -
  have f: "fst (process mk st specsJSON) = False"
    using assms process_rejected_iff[of mk st specsJSON] by simp
  from process_False_unchanged[OF f] f show ?thesis by simp
qed

theorem process_rejected_unchanged_witness:
  "rejected reject_all SpecStore_new payload_one_gate \<and>
   fst (process reject_all SpecStore_new payload_one_gate) = False \<and>
   gates (store (snd (process reject_all SpecStore_new payload_one_gate))) = [] \<and>
   lastUpdateTime (snd (process reject_all SpecStore_new payload_one_gate)) = 0"
proof -
  have r: "rejected reject_all SpecStore_new payload_one_gate"
    by (simp add: rejected_def reject_all_def payload_one_gate_def SpecStore_new_def)
  show ?thesis
    using r process_rejected_unchanged[OF r] by (simp add: SpecStore_new_def)
qed

text \<open>
  For a payload whose \<^verbatim>\<open>time\<close> is a number, \<^verbatim>\<open>null\<close> or absent, a call of \<^verbatim>\<open>_process\<close>
  never lowers \<^verbatim>\<open>lastUpdateTime\<close>, and neither does a sequence of such calls. (A
  \<^verbatim>\<open>time\<close> of another type does: the string \<^verbatim>\<open>"abc"\<close> is not less than any number, so
  it is accepted and stored as it is, and no number is less than it, so every later
  time is accepted.)
\<close>

lemma time_or_ge: "\<not> older t l \<Longrightarrow> l \<le> time_or t l"
  by (cases t) auto

lemma process_lastUpdateTime_mono:
  "lastUpdateTime st \<le> lastUpdateTime (snd (process mk st p))"
proof (cases "fst (process mk st p)")
  case False
  then show ?thesis using process_False_unchanged[of mk st p] by simp
next
  case True
  then have "\<not> older (time p) (lastUpdateTime st)"
    using process_rejected_iff[of mk st p] by (auto simp: rejected_def)
  moreover have "lastUpdateTime (snd (process mk st p)) = time_or (time p) (lastUpdateTime st)"
    using True by (auto simp: process_def Let_def split: if_splits option.splits)
  ultimately show ?thesis by (simp add: time_or_ge)
qed

lemma process_calls_mono:
  "lastUpdateTime st \<le> lastUpdateTime (process_calls mk st ps)"
proof (induction ps arbitrary: st)
  case Nil
  then show ?case by simp
next
  case (Cons p ps)
  have "lastUpdateTime st \<le> lastUpdateTime (snd (process mk st p))"
    by (rule process_lastUpdateTime_mono)
  also have "\<dots> \<le> lastUpdateTime (process_calls mk (snd (process mk st p)) ps)"
    by (rule Cons.IH)
  finally show ?case by simp
qed

lemma safeSet_idem: "safeSet (safeSet c v) v = safeSet c v"
  by (auto simp: safeSet_def split: option.splits json.splits)

lemma updateSamplingRates_idem:
  "updateSamplingRates (updateSamplingRates r d) d = updateSamplingRates r d"
  by (simp add: updateSamplingRates_def safeSet_idem)

lemma older_time_or: "\<not> older t l \<Longrightarrow> \<not> older t (time_or t l)"
  by (cases t) auto

lemma time_or_idem: "time_or t (time_or t l) = time_or t l"
  by (cases t) auto

text \<open>A second call of \<^verbatim>\<open>_process\<close> with the same payload returns the same and changes nothing.\<close>

lemma process_idem: "process mk (snd (process mk st p)) p = process mk st p"
proof (cases "fst (process mk st p)")
  case False
  show ?thesis
    using False
    by (auto simp: process_def Let_def updateSamplingRates_idem split: if_splits option.splits)
next
  case True
  then have no: "\<not> older (time p) (lastUpdateTime st)"
    using process_rejected_iff[of mk st p] by (auto simp: rejected_def)
  show ?thesis
    using True older_time_or[OF no]
    by (auto simp: process_def Let_def updateSamplingRates_idem time_or_idem
        split: if_splits option.splits)
qed

text \<open>
  Claim C8. Calling \<^verbatim>\<open>syncBootstrapValues\<close> a second time with the same string, on the
  store the first call left, returns what the first call returned and leaves that store
  as it is: the same gates, configs, layers, \<^verbatim>\<open>experimentToLayer\<close> and
  \<^verbatim>\<open>lastUpdateTime\<close> as after one call. (This holds for every string, a valid payload
  or not.)
\<close>

theorem syncBootstrapValues_idempotent:
  "syncBootstrapValues parse mk (snd (syncBootstrapValues parse mk st s)) s =
   syncBootstrapValues parse mk st s"
proof (cases "parse s")
  case None
  then show ?thesis by (simp add: syncBootstrapValues_def)
next
  case (Some p)
  obtain r st' where r: "process mk st p = (r, st')" by (cases "process mk st p")
  then have "process mk st' p = (r, st')" using process_idem[of mk st p] by simp
  then show ?thesis using Some r by (simp add: syncBootstrapValues_def)
qed

theorem syncBootstrapValues_idempotent_witness:
  "syncBootstrapValues parse_fixed accept_all
     (snd (syncBootstrapValues parse_fixed accept_all SpecStore_new ''p200'')) ''p200''
   = syncBootstrapValues parse_fixed accept_all SpecStore_new ''p200'' \<and>
   fst (syncBootstrapValues parse_fixed accept_all SpecStore_new ''p200'') = Some True \<and>
   lastUpdateTime (snd (syncBootstrapValues parse_fixed accept_all SpecStore_new ''p200'')) = 200"
proof -
  have "syncBootstrapValues parse_fixed accept_all SpecStore_new ''p200''
        = (let (r, st') = process accept_all SpecStore_new (payload_at 200) in (Some r, st'))"
    by (simp add: syncBootstrapValues_def parse_fixed_def)
  moreover have "fst (process accept_all SpecStore_new (payload_at 200)) = True"
    and "lastUpdateTime (snd (process accept_all SpecStore_new (payload_at 200))) = 200"
    by (simp_all add: process_def payload_at_def accept_all_def SpecStore_new_def Let_def)
  ultimately show ?thesis
    using syncBootstrapValues_idempotent[of parse_fixed accept_all SpecStore_new "''p200''"]
    by (simp add: split_beta)
qed

section \<open>ID lists\<close>

text \<open>
  When the response has a \<^verbatim>\<open>Content-Length\<close> header and the list is in the store, the
  number \<^verbatim>\<open>parseInt\<close> reads from the header is added to the list's \<^verbatim>\<open>readBytes\<close>
  before the body is read and parsed: the bytes stay counted when \<^verbatim>\<open>res.text()\<close>
  rejects, and \<^verbatim>\<open>updateIdList\<close> starts from the lists with the bytes counted.
\<close>

lemma genFetchIDList_readBytes:
  "map_of allLists name = Some l \<Longrightarrow>
   genFetchIDList parseInt updateIdList allLists name (Response st (Some cl) None)
     = (AList.update name (l\<lparr>readBytes := plus_number (readBytes l) (parseInt cl)\<rparr>) allLists,
        Some BodyError) \<and>
   fst (genFetchIDList parseInt updateIdList allLists name (Response st (Some cl) (Some content)))
     = fst (updateIdList
              (AList.update name (l\<lparr>readBytes := plus_number (readBytes l) (parseInt cl)\<rparr>)
                 allLists)
              name content)"
  by (simp add: genFetchIDList_def Let_def split: prod.splits)

lemma genFetchIDList_readBytes_example:
  "genFetchIDList parseInt_digit updateIdList_keep [(''l'', list_l)] ''l''
     (Response 206 (Some ''5'') (Some ''+abc''))
   = ([(''l'', list_l\<lparr>readBytes := Some 15\<rparr>)], None)"
  by (simp add: genFetchIDList_def parseInt_digit_def updateIdList_keep_def list_l_def
      plus_number_def)

text \<open>
  Claim C6 says that a response without the \<^verbatim>\<open>Content-Length\<close> header drops the list
  from the store and reports the failure. The code reports it and drops nothing:
  whatever the lists, the name, the status and the body, \<^verbatim>\<open>genFetchIDList\<close> on a
  response without the header leaves the lists exactly as they were, the list of that
  name included, and reports \<^verbatim>\<open>Content-Length for the id list is invalid.\<close>
\<close>

theorem genFetchIDList_missing_header:
  "genFetchIDList parseInt updateIdList allLists name (Response st None content)
   = (allLists, Some (Error ''Content-Length for the id list is invalid.''))"
  by (simp add: genFetchIDList_def)

text \<open>The list \<open>"l"\<close> is still in the store, with the bytes it had.\<close>

lemma genFetchIDList_missing_header_example:
  "map_of (fst (genFetchIDList parseInt_digit updateIdList_keep [(''l'', list_l)] ''l''
                  (Response 200 None (Some ''+abc'')))) ''l'' = Some list_l"
  by (simp add: genFetchIDList_def)

section \<open>Overrides\<close>

text \<open>
  On the entries that were stored, that is for names and user IDs that are not names of
  members of \<^verbatim>\<open>Object.prototype\<close>: an override lookup returns nothing when no override
  map is stored under the name or when \<open>override_entry\<close> selects nothing; otherwise it
  returns an evaluation built from the entry \<open>override_entry\<close> selects, the entry under
  the user's ID when there is one, otherwise the entry under the global key, the empty
  string. For a gate the value of the evaluation is the stored boolean; for a config or
  a layer the value is \<^verbatim>\<open>true\<close> and \<^verbatim>\<open>json_value\<close> is the stored map; \<^verbatim>\<open>rule_id\<close> is
  \<^verbatim>\<open>"override"\<close>. (For a user whose ID is \<^verbatim>\<open>constructor\<close> the code reads the inherited
  member \<^verbatim>\<open>Object\<close> as the user's entry and never reaches the global one.)
\<close>

lemma override_lookup_stored:
  "(case gateOverrides ev name of
      None \<Rightarrow> lookupGateOverride ev user name = None
    | Some overrides \<Rightarrow>
        (case override_entry overrides user of
           None \<Rightarrow> lookupGateOverride ev user name = None
         | Some v \<Rightarrow>
             (\<exists>e. lookupGateOverride ev user name = Some e \<and> result_value e = v
                  \<and> rule_id e = ''override''))) \<and>
   (case configOverrides ev name of
      None \<Rightarrow> lookupConfigOverride ev user name = None
    | Some overrides \<Rightarrow>
        (case override_entry overrides user of
           None \<Rightarrow> lookupConfigOverride ev user name = None
         | Some m \<Rightarrow>
             (\<exists>e. lookupConfigOverride ev user name = Some e \<and> result_value e = True
                  \<and> json_value e = JObj m \<and> rule_id e = ''override''))) \<and>
   (case layerOverrides ev name of
      None \<Rightarrow> lookupLayerOverride ev user name = None
    | Some overrides \<Rightarrow>
        (case override_entry overrides user of
           None \<Rightarrow> lookupLayerOverride ev user name = None
         | Some m \<Rightarrow>
             (\<exists>e. lookupLayerOverride ev user name = Some e \<and> result_value e = True
                  \<and> json_value e = JObj m \<and> rule_id e = ''override'')))"
  by (auto simp: lookupGateOverride_def lookupConfigOverride_def lookupLayerOverride_def
      lookupConfigBasedOverride_def override_entry_def ConfigEvaluation_new_def
      split: option.splits)

lemma override_lookup_example:
  "result_value (the (lookupGateOverride (evaluator_AB 100) user_u1 ''g2'')) = True \<and>
   result_value (the (lookupGateOverride (evaluator_AB 100) user_u1 ''g1'')) = False \<and>
   lookupGateOverride (evaluator_AB 100) user_u1 ''g3'' = None \<and>
   json_value (the (lookupConfigOverride (evaluator_AB 100) user_u1 ''c'')) = JObj [(''k'', JNum 1)] \<and>
   lookupLayerOverride (evaluator_AB 100) user_u1 ''c'' = None"
  using override_lookup_stored[where ev = "evaluator_AB 100" and name = "''g2''" and user = user_u1]
    override_lookup_stored[where ev = "evaluator_AB 100" and name = "''g1''" and user = user_u1]
    override_lookup_stored[where ev = "evaluator_AB 100" and name = "''g3''" and user = user_u1]
    override_lookup_stored[where ev = "evaluator_AB 100" and name = "''c''" and user = user_u1]
  by (auto simp: evaluator_AB_def user_u1_def override_entry_def)

section \<open>JavaScript numbers\<close>

text \<open>
  An integer below \<open>2 ^ 53\<close> in absolute value is a double. The products
  \<^verbatim>\<open>0.07 * 100\<close> and \<^verbatim>\<open>0.01 * 100\<close> are the doubles \<^verbatim>\<open>7.000000000000001\<close> and \<^verbatim>\<open>1\<close>.
\<close>

lemma pow2_powr: "pow2 k = 2 powr (of_int k)"
  by (simp add: pow2_def powr_real_of_int)

lemma pow2_pos: "0 < pow2 k"
  by (simp add: pow2_def)

lemma binade_eqI: "pow2 k \<le> \<bar>r\<bar> \<Longrightarrow> \<bar>r\<bar> < pow2 (k + 1) \<Longrightarrow> binade r = k"
proof -
  assume a: "pow2 k \<le> \<bar>r\<bar>" and b: "\<bar>r\<bar> < pow2 (k + 1)"
  have "0 < \<bar>r\<bar>" using a pow2_pos[of k] by linarith
  then show ?thesis
    unfolding binade_def
    using a b by (subst floor_log_eq_powr_iff) (simp_all add: pow2_powr)
qed

lemma round_half_even_int: "round_half_even (of_int m) = m"
  by (simp add: round_half_even_def)

lemma to_double_0: "to_double 0 = 0"
  by (simp add: to_double_def)

lemma binade_int_bounds:
  assumes "n \<noteq> 0" "\<bar>n\<bar> < 2 ^ 53"
  shows "0 \<le> binade (of_int n) \<and> binade (of_int n) \<le> 52"
proof -
  have pos: "0 < \<bar>real_of_int n\<bar>" using assms by simp
  have one: "1 \<le> \<bar>real_of_int n\<bar>"
  proof -
    have "1 \<le> \<bar>n\<bar>" using assms(1) by linarith
    then show ?thesis by (metis of_int_1_le_iff of_int_abs)
  qed
  have lt: "\<bar>real_of_int n\<bar> < 2 ^ 53"
    using assms(2) by (metis of_int_abs of_int_less_numeral_power_cancel_iff)
  have "0 \<le> log 2 \<bar>real_of_int n\<bar>" using one by simp
  moreover have "log 2 \<bar>real_of_int n\<bar> < 53"
    using lt pos by (simp add: log_less_iff powr_realpow[symmetric] del: powr_realpow)
  ultimately show ?thesis
    unfolding binade_def by (simp add: floor_le_iff le_floor_iff)
qed

lemma to_double_int:
  assumes "\<bar>n\<bar> < 2 ^ 53"
  shows "to_double (of_int n) = of_int n"
proof (cases "n = 0")
  case True
  then show ?thesis by (simp add: to_double_def)
next
  case False
  define e where "e = binade (of_int n)"
  have e: "0 \<le> e" "e \<le> 52" using binade_int_bounds[OF False assms] by (simp_all add: e_def)
  define s where "s = nat (52 - e)"
  have q: "pow2 (max e (- 1022) - 52) = inverse (2 ^ s)"
    using e by (cases "e = 52") (simp_all add: pow2_def s_def max_def)
  have "real_of_int n / inverse (2 ^ s) = of_int (n * 2 ^ s)" by (simp add: field_simps)
  then have "round_half_even (real_of_int n / inverse (2 ^ s)) = n * 2 ^ s"
    by (simp only: round_half_even_int)
  then show ?thesis
    using False q by (simp add: to_double_def e_def[symmetric] Let_def)
qed

lemma js_times_0: "js_times 0 100 = 0"
  by (simp add: js_times_def to_double_0)




lemma to_double_eval:
  assumes "r \<noteq> 0" "pow2 k \<le> \<bar>r\<bar>" "\<bar>r\<bar> < pow2 (k + 1)" "- 1022 \<le> k"
    and "round_half_even (r / pow2 (k - 52)) = m"
  shows "to_double r = of_int m * pow2 (k - 52)"
  using assms binade_eqI[OF assms(2) assms(3)] by (simp add: to_double_def max_def)

lemma to_double_7_100: "to_double (7 / 100) = 5044031582654956 / 2 ^ 56"
  using to_double_eval[of "7 / 100" "- 4" 5044031582654956]
  by (simp add: pow2_def round_half_even_def Let_def)

lemma js_times_7_100: "js_times (7 / 100) 100 = 7881299347898369 / 2 ^ 50"
proof -
  have a: "to_double 100 = 100" using to_double_int[of 100] by simp
  have "to_double (5044031582654956 / 2 ^ 56 * 100) = 7881299347898369 / 2 ^ 50"
    using to_double_eval[of "5044031582654956 / 2 ^ 56 * 100" 2 7881299347898369]
    by (simp add: pow2_def round_half_even_def Let_def)
  then show ?thesis by (simp add: js_times_def a to_double_7_100)
qed

lemma js_times_7_100_above: "(7::real) < js_times (7 / 100) 100"
  by (simp add: js_times_7_100)

lemma to_double_1_100: "to_double (1 / 100) = 5764607523034235 / 2 ^ 59"
  using to_double_eval[of "1 / 100" "- 7" 5764607523034235]
  by (simp add: pow2_def round_half_even_def Let_def)

lemma js_times_1_100: "js_times (1 / 100) 100 = 1"
proof -
  have a: "to_double 100 = 100" using to_double_int[of 100] by simp
  have "to_double (5764607523034235 / 2 ^ 59 * 100) = 1"
    using to_double_eval[of "5764607523034235 / 2 ^ 59 * 100" 0 4503599627370496]
    by (simp add: pow2_def round_half_even_def Let_def)
  then show ?thesis by (simp add: js_times_def a to_double_1_100)
qed


section \<open>Allocation\<close>









text \<open>
  An ID type that names a member of \<^verbatim>\<open>Object.prototype\<close> and no custom ID of the user:
  the unit ID is the member, as a string.
\<close>

lemma getUnitID_inherited_example:
  "getUnitID x_fixed user_company (Some ''constructor'')
   = Some ''function Object() { [native code] }''"
  by (simp add: getUnitID_def x_fixed_def user_company_def user_u1_def toLowerCase_def
      lower_char_def inherited_fixed_def)




section \<open>The depth bound of the evaluator\<close>

text \<open>
  An evaluation that returns within a bound returns the same evaluation within every
  larger bound.
\<close>

lemma extendsD: "extends f g \<Longrightarrow> f a b = Some r \<Longrightarrow> g a b = Some r"
  by (simp add: extends_def)

lemma checkGate_extends:
  "extends f g \<Longrightarrow> extends (checkGate x ev f) (checkGate x ev g)"
  by (auto simp: extends_def checkGate_def entry_point_def evalSpec_def Let_def
      split: option.splits if_splits)

lemma multiGate_extends:
  "extends cg cg' \<Longrightarrow> multiGate x cg user isPass names exps = Some r \<Longrightarrow>
   multiGate x cg' user isPass names exps = Some r"
proof (induction names arbitrary: exps)
  case Nil
  then show ?case by simp
next
  case (Cons a names)
  from Cons.prems(2) obtain gr where gr: "cg user (String_json x a) = Some gr"
    by (auto split: option.splits)
  then have gr': "cg' user (String_json x a) = Some gr"
    using Cons.prems(1) by (rule extendsD[rotated])
  show ?case
    using Cons.prems(2) gr gr' Cons.IH[OF Cons.prems(1)]
    by (auto simp: Let_def split: if_splits)
qed

lemma evalCondition_extends:
  "extends cg cg' \<Longrightarrow> evalCondition x ev cg user c = Some r \<Longrightarrow>
   evalCondition x ev cg' user c = Some r"
  by (auto simp: evalCondition_def Let_def dest: extendsD multiGate_extends
      split: if_splits option.splits json.splits)

lemma evalRule_loop_extends:
  "extends cg cg' \<Longrightarrow> evalRule_loop x ev cg user rule cs exps pass = Some r \<Longrightarrow>
   evalRule_loop x ev cg' user rule cs exps pass = Some r"
proof (induction cs arbitrary: exps pass)
  case Nil
  then show ?case by simp
next
  case (Cons c cs)
  from Cons.prems(2) obtain cr where cr: "evalCondition x ev cg user c = Some cr"
    by (auto split: option.splits)
  then have cr': "evalCondition x ev cg' user c = Some cr"
    using Cons.prems(1) by (rule evalCondition_extends[rotated])
  show ?case
    using Cons.prems(2) cr cr' Cons.IH[OF Cons.prems(1)]
    by (auto split: if_splits)
qed

lemma evalRule_extends:
  "extends cg cg' \<Longrightarrow> evalRule x ev cg user rule = Some r \<Longrightarrow>
   evalRule x ev cg' user rule = Some r"
  unfolding evalRule_def by (rule evalRule_loop_extends)

lemma evalDelegate_extends:
  "extends f g \<Longrightarrow> evalDelegate ev f user rule exps = Some r \<Longrightarrow>
   evalDelegate ev g user rule exps = Some r"
  by (auto simp: evalDelegate_def dest: extendsD split: option.splits)

lemma eval_loop_extends:
  "extends cg cg' \<Longrightarrow> extends f g \<Longrightarrow>
   eval_loop x ev cg f user config rs exps = Some r \<Longrightarrow>
   eval_loop x ev cg' g user config rs exps = Some r"
proof (induction rs arbitrary: exps)
  case Nil
  then show ?case by simp
next
  case (Cons rule rs)
  from Cons.prems(3) obtain rr where rr: "evalRule x ev cg user rule = Some rr"
    by (auto split: option.splits)
  then have rr': "evalRule x ev cg' user rule = Some rr"
    using Cons.prems(1) by (rule evalRule_extends[rotated])
  show ?case
  proof (cases "\<not> unsupported rr \<and> result_value rr")
    case True
    then obtain d where d: "evalDelegate ev f user rule (exps @ secondary_exposures rr) = Some d"
      using Cons.prems(3) rr by (auto simp: Let_def split: option.splits)
    then have d': "evalDelegate ev g user rule (exps @ secondary_exposures rr) = Some d"
      using Cons.prems(2) by (rule evalDelegate_extends[rotated])
    show ?thesis using Cons.prems(3) rr rr' d d' True by (simp add: Let_def)
  next
    case False
    then show ?thesis
      using Cons.prems(3) rr rr' Cons.IH[OF Cons.prems(1) Cons.prems(2)]
      by (auto simp: Let_def split: if_splits)
  qed
qed

lemma eval_extends:
  "extends cg cg' \<Longrightarrow> extends f g \<Longrightarrow> extends (eval x ev cg f) (eval x ev cg' g)"
  by (auto simp: extends_def[of "eval x ev cg f"] eval_def intro: eval_loop_extends)

lemma evalN_Suc_extends: "extends (evalN n x ev) (evalN (Suc n) x ev)"
proof (induction n)
  case 0
  then show ?case by (simp add: extends_def)
next
  case (Suc n)
  show ?case
    using eval_extends[OF checkGate_extends[OF Suc] Suc] by simp
qed

lemma evalN_more_fuel:
  "evalN n x ev user config = Some r \<Longrightarrow> evalN (n + k) x ev user config = Some r"
proof (induction k)
  case 0
  then show ?case by simp
next
  case (Suc k)
  then show ?case using extendsD[OF evalN_Suc_extends, of "n + k" x ev user config r] by simp
qed

section \<open>Rules and delegation\<close>

lemma evalRule_loop_all:
  assumes "\<forall>c \<in> set cs. \<exists>r. evalCondition x ev cg user c = Some r \<and> \<not> cond_unsupported r"
  shows "\<exists>e. evalRule_loop x ev cg user rule cs exps pass = Some e \<and>
           secondary_exposures e =
             exps @ concat (map (\<lambda>c. case exposures (the (evalCondition x ev cg user c)) of
                                        Some es \<Rightarrow> es | None \<Rightarrow> []) cs) \<and>
           result_value e =
             (pass \<and> (\<forall>c \<in> set cs. passes (the (evalCondition x ev cg user c)))) \<and>
           \<not> unsupported e \<and> rule_id e = r_id rule \<and> group_name e = groupName rule"
  using assms
proof (induction cs arbitrary: exps pass)
  case Nil
  then show ?case by (simp add: setIsExperimentGroup_def ConfigEvaluation_new_def)
next
  case (Cons c cs)
  from Cons.prems obtain r where r: "evalCondition x ev cg user c = Some r" "\<not> cond_unsupported r"
    by auto
  have rest: "\<forall>c \<in> set cs. \<exists>r. evalCondition x ev cg user c = Some r \<and> \<not> cond_unsupported r"
    using Cons.prems by simp
  show ?case
    using r Cons.IH[OF rest, of "case exposures r of Some es \<Rightarrow> exps @ es | None \<Rightarrow> exps"
        "if \<not> passes r then False else pass"]
    by (auto split: option.splits)
qed

text \<open>
  Claim C9. When every condition of the rule evaluates and none is unsupported,
  \<^verbatim>\<open>_evalRule\<close> returns an evaluation whose \<^verbatim>\<open>secondary_exposures\<close> are the exposures
  of all the conditions, in the order of the conditions (those after a failed condition
  included), and whose value is \<^verbatim>\<open>true\<close> if and only if every condition passes.
\<close>

theorem evalRule_no_short_circuit:
  assumes "\<forall>c \<in> set (conditions rule).
             \<exists>r. evalCondition x ev cg user c = Some r \<and> \<not> cond_unsupported r"
  shows "\<exists>e. evalRule x ev cg user rule = Some e \<and>
           secondary_exposures e =
             concat (map (\<lambda>c. case exposures (the (evalCondition x ev cg user c)) of
                                 Some es \<Rightarrow> es | None \<Rightarrow> []) (conditions rule)) \<and>
           result_value e = (\<forall>c \<in> set (conditions rule). passes (the (evalCondition x ev cg user c)))"
  using evalRule_loop_all[OF assms, of rule "[]" True] by (auto simp: evalRule_def)

text \<open>
  A rule with two gate conditions, the first of which fails: both exposures are kept.
\<close>

lemmas eval_defs =
  evalRule_def evalCondition_def checkGate_def entry_point_def lookupGateOverride_def
  evaluator_AB_def user_u1_def x_fixed_def gate_condition_def public_condition_def
  rule_two_gates_def rule_delegating_def String_json_def String_bool_def
  toLowerCase_def lower_char_def ConfigEvaluation_new_def withEvaluationDetails_def
  setIsExperimentGroup_def EvaluationDetails_make_def Let_def

lemma condition_g1: "evalCondition x_fixed (evaluator_AB 100)
             (checkGate x_fixed (evaluator_AB 100) (evalN 2 x_fixed (evaluator_AB 100)))
             user_u1 (gate_condition ''g1'')
           = Some \<lparr>passes = False, cond_unsupported = False,
                    exposures = Some [\<lparr>gate = ''g1'', gateValue = ''false'', ruleID = ''override''\<rparr>]\<rparr>"
  by (simp add: eval_defs)

lemma condition_g2: "evalCondition x_fixed (evaluator_AB 100)
             (checkGate x_fixed (evaluator_AB 100) (evalN 2 x_fixed (evaluator_AB 100)))
             user_u1 (gate_condition ''g2'')
           = Some \<lparr>passes = True, cond_unsupported = False,
                    exposures = Some [\<lparr>gate = ''g2'', gateValue = ''true'', ruleID = ''override''\<rparr>]\<rparr>"
  by (simp add: eval_defs)

theorem evalRule_no_short_circuit_witness:
  "map gate (secondary_exposures (the (evalRule x_fixed (evaluator_AB 100)
      (checkGate x_fixed (evaluator_AB 100) (evalN 2 x_fixed (evaluator_AB 100)))
      user_u1 rule_two_gates))) = [''g1'', ''g2''] \<and>
   result_value (the (evalRule x_fixed (evaluator_AB 100)
      (checkGate x_fixed (evaluator_AB 100) (evalN 2 x_fixed (evaluator_AB 100)))
      user_u1 rule_two_gates)) = False"
proof -
  have c: "conditions rule_two_gates = [gate_condition ''g1'', gate_condition ''g2'']"
    by (simp add: rule_two_gates_def)
  have h: "\<forall>c \<in> set (conditions rule_two_gates).
             \<exists>r. evalCondition x_fixed (evaluator_AB 100)
                    (checkGate x_fixed (evaluator_AB 100) (evalN 2 x_fixed (evaluator_AB 100)))
                    user_u1 c = Some r \<and> \<not> cond_unsupported r"
    by (simp add: c condition_g1 condition_g2)
  show ?thesis
    using evalRule_no_short_circuit[OF h] by (auto simp: c condition_g1 condition_g2)
qed

text \<open>
  The one early return: at the first unsupported condition \<^verbatim>\<open>_evalRule\<close> returns the
  unsupported evaluation, and the conditions after it are not evaluated.
\<close>

lemma evalRule_loop_unsupported:
  assumes "\<forall>c \<in> set pre. \<exists>r. evalCondition x ev cg user c = Some r \<and> \<not> cond_unsupported r"
    and "evalCondition x ev cg user c = Some r" and "cond_unsupported r"
  shows "evalRule_loop x ev cg user rule (pre @ c # post) exps pass =
         Some (ConfigEvaluation_unsupported (x_now x) (lastUpdateTime (specStore ev))
                 (initialUpdateTime (specStore ev)) None)"
  using assms
proof (induction pre arbitrary: exps pass)
  case Nil
  then show ?case by simp
next
  case (Cons p pre)
  from Cons.prems(1) obtain pr where pr: "evalCondition x ev cg user p = Some pr"
    "\<not> cond_unsupported pr" by auto
  have rest: "\<forall>c \<in> set pre. \<exists>r. evalCondition x ev cg user c = Some r \<and> \<not> cond_unsupported r"
    using Cons.prems(1) by simp
  show ?case using pr Cons.IH[OF rest Cons.prems(2) Cons.prems(3)] by simp
qed

lemma evalRule_loop_value_supported:
  "evalRule_loop x ev cg user rule cs exps pass = Some e \<Longrightarrow> result_value e \<Longrightarrow> \<not> unsupported e"
proof (induction cs arbitrary: exps pass)
  case Nil
  then show ?case by (auto simp: setIsExperimentGroup_def ConfigEvaluation_new_def)
next
  case (Cons c cs)
  then show ?case
    by (auto simp: ConfigEvaluation_unsupported_def withEvaluationDetails_def
        ConfigEvaluation_new_def split: option.splits if_splits)
qed

lemma evalRule_value_supported:
  "evalRule x ev cg user rule = Some e \<Longrightarrow> result_value e \<Longrightarrow> \<not> unsupported e"
  unfolding evalRule_def by (rule evalRule_loop_value_supported)

lemma eval_loop_prefix:
  assumes "\<forall>r \<in> set pre. \<exists>e. evalRule x ev cg user r = Some e \<and> \<not> unsupported e \<and> \<not> result_value e"
  shows "eval_loop x ev cg evalRec user config (pre @ rest) exps =
         eval_loop x ev cg evalRec user config rest
           (exps @ concat (map (\<lambda>r. secondary_exposures (the (evalRule x ev cg user r))) pre))"
  using assms
proof (induction pre arbitrary: exps)
  case Nil
  then show ?case by simp
next
  case (Cons r pre)
  from Cons.prems obtain e where e: "evalRule x ev cg user r = Some e" "\<not> unsupported e"
    "\<not> result_value e" by auto
  have rest: "\<forall>r \<in> set pre. \<exists>e. evalRule x ev cg user r = Some e \<and> \<not> unsupported e \<and> \<not> result_value e"
    using Cons.prems by simp
  show ?case using e Cons.IH[OF rest] by (simp add: Let_def)
qed

lemma eval_delegate_open:
  assumes en: "enabled config"
    and rs: "rules config = pre @ rule # post"
    and pre: "\<forall>r \<in> set pre. \<exists>e. evalRule x ev cg user r = Some e \<and> \<not> unsupported e \<and> \<not> result_value e"
    and re: "evalRule x ev cg user rule = Some re" "result_value re"
    and d: "configDelegate rule = Some delegate" "getConfig (specStore ev) delegate = Some dspec"
    and dres: "evalRec user dspec = Some dres"
  shows "eval x ev cg evalRec user config =
         Some (dres
           \<lparr>config_delegate := Some delegate,
            undelegated_secondary_exposures :=
              Some (concat (map (\<lambda>r. secondary_exposures (the (evalRule x ev cg user r))) pre)
                    @ secondary_exposures re),
            explicit_parameters := explicitParameters dspec,
            secondary_exposures :=
              (concat (map (\<lambda>r. secondary_exposures (the (evalRule x ev cg user r))) pre)
               @ secondary_exposures re) @ secondary_exposures dres,
            group_name := (case group_name dres of Some g \<Rightarrow> Some g | None \<Rightarrow> groupName rule)\<rparr>)"
proof -
  have sup: "\<not> unsupported re" using re by (rule evalRule_value_supported)
  show ?thesis
    using en rs re sup d dres eval_loop_prefix[OF pre, of evalRec config "rule # post" "[]"]
    by (simp add: eval_def evalDelegate_def Let_def)
qed

text \<open>
  Claim C4. Let the spec be enabled and let \<open>rule\<close> be its first passing rule: every
  rule before it evaluates, supported, to \<^verbatim>\<open>false\<close>, and \<open>rule\<close> evaluates to \<^verbatim>\<open>true\<close>.
  If \<open>rule\<close> has a \<^verbatim>\<open>configDelegate\<close> that names a config of the store, and the
  recursive \<^verbatim>\<open>_eval\<close> of that config returns \<open>dres\<close>, then \<^verbatim>\<open>_eval\<close> returns \<open>dres\<close> with
  \<^verbatim>\<open>config_delegate\<close> set to the delegate's name, \<^verbatim>\<open>undelegated_secondary_exposures\<close>
  set to the exposures gathered from the rules up to \<open>rule\<close>,
  \<^verbatim>\<open>secondary_exposures\<close> set to those followed by the delegate's,
  \<^verbatim>\<open>explicit_parameters\<close> taken from the delegate spec, and \<^verbatim>\<open>group_name\<close> the
  delegate's when it is not \<^verbatim>\<open>null\<close> and \<^verbatim>\<open>rule.groupName\<close> otherwise.
\<close>

theorem eval_delegate:
  assumes "enabled config"
    and "rules config = pre @ rule # post"
    and "\<forall>r \<in> set pre. \<exists>e. evalRule x ev (checkGate x ev (evalN n x ev)) user r = Some e
                             \<and> \<not> unsupported e \<and> \<not> result_value e"
    and "evalRule x ev (checkGate x ev (evalN n x ev)) user rule = Some re"
    and "result_value re"
    and "configDelegate rule = Some delegate"
    and "getConfig (specStore ev) delegate = Some dspec"
    and "evalN n x ev user dspec = Some dres"
  shows "evalN (Suc n) x ev user config =
         Some (dres
           \<lparr>config_delegate := Some delegate,
            undelegated_secondary_exposures :=
              Some (concat (map (\<lambda>r. secondary_exposures
                                        (the (evalRule x ev (checkGate x ev (evalN n x ev)) user r))) pre)
                    @ secondary_exposures re),
            explicit_parameters := explicitParameters dspec,
            secondary_exposures :=
              (concat (map (\<lambda>r. secondary_exposures
                                   (the (evalRule x ev (checkGate x ev (evalN n x ev)) user r))) pre)
               @ secondary_exposures re) @ secondary_exposures dres,
            group_name := (case group_name dres of Some g \<Rightarrow> Some g | None \<Rightarrow> groupName rule)\<rparr>)"
  using eval_delegate_open[where cg = "checkGate x ev (evalN n x ev)" and evalRec = "evalN n x ev",
      OF assms]
  by simp

lemma evalN_exp_B: "evalN (Suc n) x_fixed (evaluator_AB t) user_u1 exp_B
  = Some (ConfigEvaluation_new False ''default'' None [] (JObj []) (Some [''p'']) None None False)"
  by (simp add: eval_def exp_B_def simple_spec_def)

lemma x_fixed_toLowerCase: "x_toLowerCase x_fixed = toLowerCase"
  by (simp add: x_fixed_def)

lemma evalRule_rule_delegating: "evalRule x_fixed (evaluator_AB t) cg user_u1 rule_delegating
  = Some (ConfigEvaluation_new True ''rA'' (Some ''grpA'') [] (JObj []) None None None False)"
  by (simp add: evalRule_def evalCondition_def rule_delegating_def public_condition_def
      x_fixed_toLowerCase toLowerCase_def lower_char_def setIsExperimentGroup_def
      ConfigEvaluation_new_def)

theorem eval_delegate_witness:
  "config_delegate (the (evalN 2 x_fixed (evaluator_AB 100) user_u1 exp_A)) = Some ''exp_B'' \<and>
   group_name (the (evalN 2 x_fixed (evaluator_AB 100) user_u1 exp_A)) = Some ''grpA'' \<and>
   explicit_parameters (the (evalN 2 x_fixed (evaluator_AB 100) user_u1 exp_A)) = Some [''p''] \<and>
   rule_id (the (evalN 2 x_fixed (evaluator_AB 100) user_u1 exp_A)) = ''default'' \<and>
   undelegated_secondary_exposures (the (evalN 2 x_fixed (evaluator_AB 100) user_u1 exp_A)) = Some []"
proof -
  have two: "(2::nat) = Suc (Suc 0)" by simp
  have en: "enabled exp_A" and rs: "rules exp_A = [] @ rule_delegating # []"
    by (simp_all add: exp_A_def simple_spec_def)
  have pre: "\<forall>r \<in> set []. \<exists>e. evalRule x_fixed (evaluator_AB 100)
                 (checkGate x_fixed (evaluator_AB 100) (evalN (Suc 0) x_fixed (evaluator_AB 100)))
                 user_u1 r = Some e \<and> \<not> unsupported e \<and> \<not> result_value e"
    by simp
  have v: "result_value (ConfigEvaluation_new True ''rA'' (Some ''grpA'') [] (JObj []) None None None False)"
    by (simp add: ConfigEvaluation_new_def)
  have d: "configDelegate rule_delegating = Some ''exp_B''"
    by (simp add: rule_delegating_def)
  have g: "getConfig (specStore (evaluator_AB 100)) ''exp_B'' = Some exp_B"
    by (simp add: getConfig_def evaluator_AB_def store_AB_def SpecStore_new_def)
  show ?thesis
    unfolding two
    using eval_delegate[OF en rs pre evalRule_rule_delegating v d g evalN_exp_B]
    by (simp add: ConfigEvaluation_new_def rule_delegating_def exp_B_def simple_spec_def)
qed

section \<open>The user of the client initialize response\<close>

text \<open>
  Claim C10, as amended. When \<^verbatim>\<open>getClientInitializeResponse\<close> returns a payload, the
  store is serving checks, the object the caller passed has lost its
  \<^verbatim>\<open>privateAttributes\<close> (and nothing else on the heap has changed), and the \<^verbatim>\<open>user\<close>
  of the payload is the reference the caller passed. When it returns \<^verbatim>\<open>null\<close> (the
  store is not serving checks) or an evaluation throws, the heap is as it was.
\<close>

theorem getClientInitializeResponse_user:
  assumes "h userRef = Some user"
  shows "(case getClientInitializeResponse n x ev h userRef hashAlg of
            (Some (Some payload), h') \<Rightarrow>
              isServingChecks (specStore ev) \<and>
              h' = h(userRef \<mapsto> user\<lparr>privateAttributes := None\<rparr>) \<and>
              cir_user payload = userRef
          | (_, h') \<Rightarrow> h' = h)"
  using assms
  by (simp add: getClientInitializeResponse_def split: option.splits)

text \<open>
  Claim C10 as it was stated fails: when the store is not serving checks the call
  returns \<^verbatim>\<open>null\<close> and the caller's user keeps its \<^verbatim>\<open>privateAttributes\<close>.
\<close>

theorem getClientInitializeResponse_null_counterexample:
  "fst (getClientInitializeResponse 3 x_fixed (evaluator_AB 0) [0 \<mapsto> user_u1] 0 None) = Some None \<and>
   map_option privateAttributes
     (snd (getClientInitializeResponse 3 x_fixed (evaluator_AB 0) [0 \<mapsto> user_u1] 0 None) 0)
   = Some (Some [(''secret'', JStr ''do not log'')])"
  by (simp add: getClientInitializeResponse_def isServingChecks_def evaluator_AB_def
      store_AB_def SpecStore_new_def user_u1_def)

lemma evalN_exp_A: "\<exists>e. evalN (Suc (Suc n)) x_fixed (evaluator_AB t) user_u1 exp_A = Some e
                  \<and> config_delegate e = Some ''exp_B''"
proof -
  have en: "enabled exp_A" and rs: "rules exp_A = [] @ rule_delegating # []"
    by (simp_all add: exp_A_def simple_spec_def)
  have pre: "\<forall>r \<in> set []. \<exists>e. evalRule x_fixed (evaluator_AB t)
                 (checkGate x_fixed (evaluator_AB t) (evalN (Suc n) x_fixed (evaluator_AB t)))
                 user_u1 r = Some e \<and> \<not> unsupported e \<and> \<not> result_value e"
    by simp
  have v: "result_value (ConfigEvaluation_new True ''rA'' (Some ''grpA'') [] (JObj []) None None None False)"
    by (simp add: ConfigEvaluation_new_def)
  have d: "configDelegate rule_delegating = Some ''exp_B''"
    by (simp add: rule_delegating_def)
  have g: "getConfig (specStore (evaluator_AB t)) ''exp_B'' = Some exp_B"
    by (simp add: getConfig_def evaluator_AB_def store_AB_def SpecStore_new_def)
  show ?thesis
    using eval_delegate_open[where cg = "checkGate x_fixed (evaluator_AB t) (evalN (Suc n) x_fixed (evaluator_AB t))"
        and evalRec = "evalN (Suc n) x_fixed (evaluator_AB t)",
        OF en rs pre evalRule_rule_delegating v d g evalN_exp_B]
    by simp
qed

lemma payload_returned:
  "\<exists>payload h'. getClientInitializeResponse 3 x_fixed (evaluator_AB 100) [0 \<mapsto> user_u1] 0 None
     = (Some (Some payload), h')"
proof -
  have three: "(3::nat) = Suc (Suc (Suc 0))" by simp
  obtain e where e: "evalN (Suc (Suc (Suc 0))) x_fixed (evaluator_AB 100) user_u1 exp_A = Some e"
    "config_delegate e = Some ''exp_B''"
    using evalN_exp_A[of "Suc 0" 100] by auto
  have b: "evalN (Suc (Suc (Suc 0))) x_fixed (evaluator_AB 100) user_u1 exp_B
        = Some (ConfigEvaluation_new False ''default'' None [] (JObj []) (Some [''p'']) None None False)"
    by (rule evalN_exp_B)
  have st: "store (specStore (evaluator_AB 100))
      = \<lparr>gates = [], configs = [(''exp_B'', exp_B)], idLists = [],
         layers = [(''exp_A'', exp_A)], experimentToLayer = []\<rparr>"
    and sv: "isServingChecks (specStore (evaluator_AB 100))"
    and gc: "getConfig (specStore (evaluator_AB 100)) ''exp_B'' = Some exp_B"
    by (simp_all add: evaluator_AB_def store_AB_def SpecStore_new_def isServingChecks_def
        getConfig_def)
  have eb: "entity exp_B = ''experiment''" "\<not> hasSharedParams exp_B"
    by (simp_all add: exp_B_def simple_spec_def)
  show ?thesis
    unfolding three
    using e b
    by (simp add: getClientInitializeResponse_def st sv gc eb configResponse_def
        layerResponse_def isUserAllocatedToExperiment_def Let_def del: evalN.simps)
qed

theorem getClientInitializeResponse_user_witness:
  "snd (getClientInitializeResponse 3 x_fixed (evaluator_AB 100) [0 \<mapsto> user_u1] 0 None) 0
     = Some (user_u1\<lparr>privateAttributes := None\<rparr>) \<and>
   map_option (map_option cir_user)
     (fst (getClientInitializeResponse 3 x_fixed (evaluator_AB 100) [0 \<mapsto> user_u1] 0 None))
     = Some (Some 0)"
proof -
  obtain payload h' where
    r: "getClientInitializeResponse 3 x_fixed (evaluator_AB 100) [0 \<mapsto> user_u1] 0 None
        = (Some (Some payload), h')"
    using payload_returned by blast
  have h: "[0 \<mapsto> user_u1] (0::nat) = Some user_u1" by simp
  show ?thesis
    using getClientInitializeResponse_user[where h = "[0 \<mapsto> user_u1]" and userRef = 0
        and user = user_u1 and n = 3 and x = x_fixed and ev = "evaluator_AB 100"
        and hashAlg = None] h r
    by simp
qed

end
